theory Spec2Isabelle
  imports
    Complex_Main
    "HOL-Library.Char_ord"
    "HOL-Library.List_Lexorder"
    "HOL-Library.Sublist"
begin

section \<open>Data model\<close>

text \<open>
  The ledger application keeps one aggregate value (\<open>AppData\<close>) that every page handler
  reads and hands back, updated, to \<open>onSave\<close>.

  A JavaScript \<open>number\<close> is modelled as a rational, so sums, products and quotients are
  exact; infinities and \<open>NaN\<close> are outside the model.  Rounding is outside it too, except
  for the ledger page's \<open>handleSave\<close>, which is read a second time with the rounding of
  double precision written out (\<open>handleSave_rnd\<close>, \<open>toDouble\<close>).  Every division of the
  replaying page is guarded by a positivity test.  Dates are the strings of an
  \<open><input type="date">\<close> (\<open>YYYY-MM-DD\<close>); \<open>a.localeCompare(b)\<close> on them is the
  lexicographic order of the characters, and \<open>Array.prototype.sort\<close> is stable, as
  \<open>sort_key\<close> is.
\<close>

text \<open>
  Modelled from the spec: the type declarations \<open>types.ts\<close> (\<open>TransactionType\<close>,
  \<open>Account\<close>, \<open>Party\<close>, \<open>Transaction\<close>, \<open>InvestmentTrade\<close>, \<open>Investment\<close>, \<open>Task\<close>,
  \<open>JournalEntry\<close>, \<open>Goal\<close>, \<open>AppData\<close>) are not among the sources.  The enumerations have
  the members of the spec's data model, which are the ones the handlers name; the records
  have the fields that the handlers and \<open>INITIAL_DATA\<close> read and write, under the names
  used there.  Field names shared by several interfaces (\<open>id\<close>, \<open>name\<close>, \<open>type\<close>,
  \<open>date\<close>, \<open>qty\<close>, \<open>notes\<close>) carry a prefix.
\<close>

type_synonym number = rat

datatype TransactionType = INCOME | EXPENSE | SALE | PURCHASE

datatype TradeType = Buy | Sell

datatype Status = Active | Closed

record Account =
  acc_id :: string
  acc_name :: string
  balance :: number
  openingBalance :: number

record Party =
  party_id :: string
  party_name :: string
  currentBalance :: number

record Transaction =
  tx_id :: string
  tx_type :: TransactionType
  tx_date :: string
  description :: string
  category :: string
  amount :: number
  account :: string
  partyId :: "string option"
  tx_notes :: string

record InvestmentTrade =
  trade_id :: string
  trade_date :: string
  trade_type :: TradeType
  trade_qty :: number
  price :: number
  charges :: number

record Investment =
  inv_id :: string
  inv_name :: string
  assetType :: string
  qty :: number
  avgBuyPrice :: number
  currPrice :: number
  history :: "InvestmentTrade list"
  status :: Status
  totalRealizedPL :: number

record Task =
  task_id :: string
  content :: string
  dueDate :: string
  priority :: string
  completed :: bool

record JournalEntry =
  journal_id :: string
  journal_date :: string
  title :: string
  journal_content :: string
  photos :: "string list"

record Goal =
  goal_id :: string
  goal_name :: string

record AppData =
  accounts :: "Account list"
  parties :: "Party list"
  transactions :: "Transaction list"
  investments :: "Investment list"
  tasks :: "Task list"
  journal :: "JournalEntry list"
  goals :: "Goal list"

text \<open>
  A handler either calls \<open>onSave\<close> with the new aggregate (\<open>Inr\<close>) or returns early
  without saving (\<open>Inl\<close>), silently or after \<open>showToast\<close> with a message.
\<close>

datatype Rejected = Silent | Toast string

subsection \<open>Array helpers\<close>

text \<open>
  \<open>xs.find(p)\<close> is \<open>find p xs\<close>.  Where a handler mutates the object that
  \<open>find\<close> returned, or overwrites the slot that \<open>findIndex\<close> returned, the first
  matching element of the array changes: \<open>updateFirst\<close>.
\<close>

fun updateFirst :: "('a \<Rightarrow> bool) \<Rightarrow> ('a \<Rightarrow> 'a) \<Rightarrow> 'a list \<Rightarrow> 'a list" where
  "updateFirst p f [] = []"
| "updateFirst p f (x # xs) = (if p x then f x # xs else x # updateFirst p f xs)"

section \<open>Portfolio page with full replay (\<open>src/unnamed/part_001\<close>)\<close>

text \<open>The form state \<open>tradeData\<close> of the trade dialog.\<close>

record TradeData =
  td_id :: string
  assetId :: string
  newName :: string
  newType :: string
  td_type :: TradeType
  td_qty :: number
  td_price :: number
  td_charges :: number
  td_date :: string
  accountId :: string

definition toUpperCase_type :: "TradeType \<Rightarrow> string" where
  "toUpperCase_type t = (case t of Buy \<Rightarrow> ''BUY'' | Sell \<Rightarrow> ''SELL'')"

text \<open>
  The body of the \<open>forEach\<close> of the recalculation engine: the running
  \<open>(calcQty, totalCostBasis, totalRealizedPL)\<close> after one more trade \<open>h\<close>.
\<close>

fun recalcStep :: "number \<times> number \<times> number \<Rightarrow> InvestmentTrade \<Rightarrow> number \<times> number \<times> number" where
  "recalcStep (calcQty, totalCostBasis, realizedPL) h =
     (if trade_type h = Buy then
        (let costWithCharges = (trade_qty h * price h) + charges h
         in (calcQty + trade_qty h, totalCostBasis + costWithCharges, realizedPL))
      else
        (let currentAvg = (if calcQty > 0 then totalCostBasis / calcQty else 0);
             profitOnSale = (price h - currentAvg) * trade_qty h - charges h
         in (calcQty - trade_qty h, totalCostBasis - (currentAvg * trade_qty h),
             realizedPL + profitOnSale)))"

text \<open>
  \<open>history.sort((a,b) => a.date.localeCompare(b.date)).forEach(...)\<close>, started from
  \<open>calcQty = 0, totalCostBasis = 0, totalRealizedPL = 0\<close>.  The sort is in place, so the
  sorted array is also the history that the asset keeps.
\<close>

definition sortHistory :: "InvestmentTrade list \<Rightarrow> InvestmentTrade list" where
  "sortHistory hs = sort_key trade_date hs"

definition recalc :: "InvestmentTrade list \<Rightarrow> number \<times> number \<times> number" where
  "recalc hs = foldl recalcStep (0, 0, 0) (sortHistory hs)"

text \<open>
  The pieces of \<open>executeTrade\<close> of the replaying portfolio page, each under the name of
  the local constant it computes.  \<open>assetStamp\<close> and \<open>timestamp\<close> are the two readings of
  \<open>Date.now()\<close> (as decimal strings); \<open>fmt\<close> is the conversion of a number inside a
  template string.
\<close>

definition targetAsset :: "AppData \<Rightarrow> TradeData \<Rightarrow> string \<Rightarrow> Investment option" where
  "targetAsset data tradeData assetStamp =
     (if assetId tradeData \<noteq> [] then find (\<lambda>i. inv_id i = assetId tradeData) (investments data)
      else if newName tradeData \<noteq> [] then
        Some \<lparr> inv_id = assetStamp, inv_name = newName tradeData, assetType = newType tradeData,
               qty = 0, avgBuyPrice = 0, currPrice = td_price tradeData, history = [],
               status = Active, totalRealizedPL = 0 \<rparr>
      else None)"

definition netImpact :: "TradeData \<Rightarrow> number" where
  "netImpact tradeData =
     (let tradeValue = td_qty tradeData * td_price tradeData
      in if td_type tradeData = Buy then tradeValue + td_charges tradeData
         else tradeValue - td_charges tradeData)"

definition ledgerTrans :: "(number \<Rightarrow> string) \<Rightarrow> TradeData \<Rightarrow> Investment \<Rightarrow> string \<Rightarrow> Transaction" where
  "ledgerTrans fmt tradeData asset timestamp =
     \<lparr> tx_id = (if td_id tradeData \<noteq> [] then ''trade-'' @ td_id tradeData
                else ''trade-'' @ timestamp),
       tx_type = (if td_type tradeData = Buy then EXPENSE else INCOME),
       tx_date = td_date tradeData,
       description = toUpperCase_type (td_type tradeData) @ '' '' @ inv_name asset
                     @ '' ('' @ fmt (td_qty tradeData) @ '' Units)'',
       category = ''Asset Reconciliation'',
       amount = \<bar>netImpact tradeData\<bar>,
       account = accountId tradeData,
       partyId = None,
       tx_notes = ''Trade ID: '' @ (if td_id tradeData \<noteq> [] then td_id tradeData else timestamp)
                  @ '' | Node: '' @ inv_name asset \<rparr>"

definition tradeRecord :: "TradeData \<Rightarrow> string \<Rightarrow> InvestmentTrade" where
  "tradeRecord tradeData timestamp =
     \<lparr> trade_id = (if td_id tradeData \<noteq> [] then td_id tradeData else ''tr-'' @ timestamp),
       trade_date = td_date tradeData, trade_type = td_type tradeData,
       trade_qty = td_qty tradeData, price = td_price tradeData,
       charges = td_charges tradeData \<rparr>"

text \<open>
  The history before the sort: the asset's history, without the entry being amended when
  \<open>tradeData.id\<close> is set, and with the new record pushed at the end.
\<close>

definition pushedHistory :: "TradeData \<Rightarrow> Investment \<Rightarrow> string \<Rightarrow> InvestmentTrade list" where
  "pushedHistory tradeData asset timestamp =
     (if td_id tradeData \<noteq> []
      then filter (\<lambda>h. trade_id h \<noteq> td_id tradeData) (history asset)
      else history asset) @ [tradeRecord tradeData timestamp]"

definition finalAsset :: "Investment \<Rightarrow> InvestmentTrade list \<Rightarrow> Investment" where
  "finalAsset asset hs =
     (case recalc hs of (calcQty, totalCostBasis, realizedPL) \<Rightarrow>
        asset \<lparr> qty := max 0 calcQty,
                avgBuyPrice := (if calcQty > 0 then totalCostBasis / calcQty else 0),
                history := sortHistory hs,
                totalRealizedPL := realizedPL,
                status := (if calcQty > 0 then Active else Closed) \<rparr>)"

definition updatedInvestments :: "AppData \<Rightarrow> Investment \<Rightarrow> Investment list" where
  "updatedInvestments data final =
     (if list_ex (\<lambda>i. inv_id i = inv_id final) (investments data)
      then updateFirst (\<lambda>i. inv_id i = inv_id final) (\<lambda>_. final) (investments data)
      else investments data @ [final])"

definition updatedAccounts :: "AppData \<Rightarrow> TradeData \<Rightarrow> Account list" where
  "updatedAccounts data tradeData =
     map (\<lambda>acc. if acc_id acc = accountId tradeData
                then (let delta = (if td_type tradeData = Buy then - netImpact tradeData
                                   else netImpact tradeData)
                      in acc\<lparr>balance := balance acc + delta\<rparr>)
                else acc) (accounts data)"

definition executeTrade ::
  "(number \<Rightarrow> string) \<Rightarrow> AppData \<Rightarrow> TradeData \<Rightarrow> string \<Rightarrow> string \<Rightarrow> Rejected + AppData" where
  "executeTrade fmt data tradeData assetStamp timestamp =
    (case targetAsset data tradeData assetStamp of
       None \<Rightarrow> Inl (Toast ''Define Asset Node First'')
     | Some asset \<Rightarrow>
        if td_qty tradeData \<le> 0 \<or> td_price tradeData \<le> 0
        then Inl (Toast ''Invalid Execution Metrics'')
        else
          (let lt = ledgerTrans fmt tradeData asset timestamp;
               final = finalAsset asset (pushedHistory tradeData asset timestamp)
           in Inr (data\<lparr> investments := updatedInvestments data final,
                          accounts := updatedAccounts data tradeData,
                          transactions :=
                            lt # filter (\<lambda>t. tx_id t \<noteq> tx_id lt) (transactions data) \<rparr>)))"

text \<open>
  The state after a handler has run: \<open>onSave\<close> replaces the aggregate, an early return
  leaves it as it was.
\<close>

definition stateAfter :: "AppData \<Rightarrow> Rejected + AppData \<Rightarrow> AppData" where
  "stateAfter data r = (case r of Inl _ \<Rightarrow> data | Inr data' \<Rightarrow> data')"

definition assetById :: "string \<Rightarrow> AppData \<Rightarrow> Investment option" where
  "assetById aid data = find (\<lambda>i. inv_id i = aid) (investments data)"

section \<open>Portfolio page with incremental update (\<open>src/pages/PortfolioPage.tsx\<close>)\<close>

text \<open>
  This page keeps the asset being traded in the component state \<open>tradingAsset\<close> and its
  form holds \<open>type, qty, price, charges, date, accountId\<close> only (the other fields of
  \<open>TradeData\<close> are not read).  The rupee sign of the notes is spelled in UTF-8.  The
  average after a buy divides by the new quantity, which is positive whenever the stored
  quantity is not negative; for a stored quantity of minus the bought quantity JavaScript
  yields no finite number, and the quotient below says nothing about that case.
\<close>

definition rupee :: string where
  "rupee = [CHR 0xE2, CHR 0x82, CHR 0xB9]"

definition tradeTotalImpact :: "TradeData \<Rightarrow> number" where
  "tradeTotalImpact tradeData =
     (let tradeValue = td_qty tradeData * td_price tradeData
      in if td_type tradeData = Buy then tradeValue + td_charges tradeData
         else tradeValue - td_charges tradeData)"

definition tradedInvestment :: "TradeData \<Rightarrow> string \<Rightarrow> Investment \<Rightarrow> Investment" where
  "tradedInvestment tradeData timestamp iv =
     (let record = \<lparr> trade_id = ''tr-'' @ timestamp, trade_date = td_date tradeData,
                      trade_type = td_type tradeData, trade_qty = td_qty tradeData,
                      price = td_price tradeData, charges = td_charges tradeData \<rparr>;
          history' = history iv @ [record]
      in if td_type tradeData = Buy then
           (let currentTotalCost = qty iv * avgBuyPrice iv;
                newTradeCost = (td_qty tradeData * td_price tradeData) + td_charges tradeData;
                newQty = qty iv + td_qty tradeData;
                newAvgPrice = (currentTotalCost + newTradeCost) / newQty
            in iv \<lparr> qty := newQty, avgBuyPrice := newAvgPrice, history := history',
                      totalRealizedPL := totalRealizedPL iv, currPrice := td_price tradeData \<rparr>)
         else
           (let profitOnThisSell =
                  (td_price tradeData - avgBuyPrice iv) * td_qty tradeData - td_charges tradeData
            in iv \<lparr> qty := qty iv - td_qty tradeData, avgBuyPrice := avgBuyPrice iv,
                      history := history',
                      totalRealizedPL := totalRealizedPL iv + profitOnThisSell,
                      currPrice := td_price tradeData \<rparr>))"

definition executeTrade_PortfolioPage ::
  "(number \<Rightarrow> string) \<Rightarrow> AppData \<Rightarrow> Investment option \<Rightarrow> TradeData \<Rightarrow> string \<Rightarrow> Rejected + AppData" where
  "executeTrade_PortfolioPage fmt data tradingAsset tradeData timestamp =
    (case tradingAsset of
       None \<Rightarrow> Inl Silent
     | Some asset \<Rightarrow>
        if td_qty tradeData \<le> 0 \<or> td_price tradeData \<le> 0 then Inl Silent
        else if td_type tradeData = Sell \<and> qty asset < td_qty tradeData
        then Inl (Toast ''Insufficient holding quantity.'')
        else
          (let lt = \<lparr> tx_id = ''trade-'' @ timestamp,
                      tx_type = (if td_type tradeData = Buy then EXPENSE else INCOME),
                      tx_date = td_date tradeData,
                      description = toUpperCase_type (td_type tradeData) @ '' '' @ inv_name asset
                                    @ '' ('' @ fmt (td_qty tradeData) @ '' units)'',
                      category = ''Investment Trade'',
                      amount = \<bar>tradeTotalImpact tradeData\<bar>,
                      account = accountId tradeData,
                      partyId = None,
                      tx_notes = ''Asset: '' @ inv_name asset @ '' | Price: '' @ rupee
                                 @ fmt (td_price tradeData) @ '' | Charges: '' @ rupee
                                 @ fmt (td_charges tradeData) \<rparr>
           in Inr (data\<lparr> investments :=
                            map (\<lambda>iv. if inv_id iv = inv_id asset
                                       then tradedInvestment tradeData timestamp iv else iv)
                                (investments data),
                          accounts :=
                            map (\<lambda>acc. if acc_id acc = accountId tradeData
                                       then acc\<lparr>balance :=
                                              (if td_type tradeData = Buy
                                               then balance acc - tradeTotalImpact tradeData
                                               else balance acc + tradeTotalImpact tradeData)\<rparr>
                                       else acc) (accounts data),
                          transactions := lt # transactions data \<rparr>)))"

definition handleUpdateMktPrice :: "AppData \<Rightarrow> string \<Rightarrow> number \<Rightarrow> AppData" where
  "handleUpdateMktPrice data aid newPrice =
     data\<lparr> investments :=
             map (\<lambda>iv. if inv_id iv = aid then iv\<lparr>currPrice := newPrice\<rparr> else iv)
                 (investments data) \<rparr>"

text \<open>The figure that the asset table shows for an open position; it is no field.\<close>

definition currentUnrealizedPL :: "Investment \<Rightarrow> number" where
  "currentUnrealizedPL iv = (currPrice iv - avgBuyPrice iv) * qty iv"

section \<open>Ledger page (\<open>src/unnamed/part_004\<close>)\<close>

text \<open>
  The form state \<open>editing\<close> is a partial transaction, or \<open>null\<close>.  An absent string
  field is the empty string and an absent amount is \<open>0\<close>: the handler tests them for
  truthiness only.
\<close>

record Editing =
  e_id :: string
  e_type :: TransactionType
  e_date :: string
  e_description :: string
  e_category :: string
  e_amount :: number
  e_account :: string
  e_partyId :: "string option"
  e_notes :: string

definition trans_new :: "Editing \<Rightarrow> string \<Rightarrow> Transaction" where
  "trans_new editing now =
     \<lparr> tx_id = (if e_id editing \<noteq> [] then e_id editing else now),
       tx_type = e_type editing,
       tx_date = e_date editing,
       description = e_description editing,
       category = e_category editing,
       amount = e_amount editing,
       account = e_account editing,
       partyId = (case e_partyId editing of None \<Rightarrow> None
                  | Some p \<Rightarrow> if p \<noteq> [] then Some p else None),
       tx_notes = e_notes editing \<rparr>"

text \<open>The four in-place balance updates of \<open>handleSave\<close>, as the handler writes them.\<close>

definition revertAccount :: "Transaction \<Rightarrow> Account \<Rightarrow> Account" where
  "revertAccount old oldAcc =
     (if tx_type old = INCOME \<or> tx_type old = SALE
      then oldAcc\<lparr>balance := balance oldAcc - amount old\<rparr>
      else oldAcc\<lparr>balance := balance oldAcc + amount old\<rparr>)"

definition revertParty :: "Transaction \<Rightarrow> Party \<Rightarrow> Party" where
  "revertParty old oldParty =
     (if tx_type old = SALE then oldParty\<lparr>currentBalance := currentBalance oldParty - amount old\<rparr>
      else if tx_type old = PURCHASE then oldParty\<lparr>currentBalance := currentBalance oldParty + amount old\<rparr>
      else if tx_type old = INCOME then oldParty\<lparr>currentBalance := currentBalance oldParty + amount old\<rparr>
      else if tx_type old = EXPENSE then oldParty\<lparr>currentBalance := currentBalance oldParty - amount old\<rparr>
      else oldParty)"

definition applyAccount :: "Transaction \<Rightarrow> Account \<Rightarrow> Account" where
  "applyAccount t newAcc =
     (if tx_type t = INCOME \<or> tx_type t = SALE
      then newAcc\<lparr>balance := balance newAcc + amount t\<rparr>
      else newAcc\<lparr>balance := balance newAcc - amount t\<rparr>)"

definition applyParty :: "Transaction \<Rightarrow> Party \<Rightarrow> Party" where
  "applyParty t newParty =
     (if tx_type t = SALE then newParty\<lparr>currentBalance := currentBalance newParty + amount t\<rparr>
      else if tx_type t = PURCHASE then newParty\<lparr>currentBalance := currentBalance newParty - amount t\<rparr>
      else if tx_type t = INCOME then newParty\<lparr>currentBalance := currentBalance newParty - amount t\<rparr>
      else if tx_type t = EXPENSE then newParty\<lparr>currentBalance := currentBalance newParty + amount t\<rparr>
      else newParty)"

text \<open>
  \<open>parties.find(p => p.id === t.partyId)\<close> followed by the update of what was found; no
  party has the id \<open>undefined\<close>.
\<close>

definition findParty :: "string option \<Rightarrow> Party list \<Rightarrow> Party option" where
  "findParty pid ps = (case pid of None \<Rightarrow> None | Some i \<Rightarrow> find (\<lambda>p. party_id p = i) ps)"

definition updateParty :: "string option \<Rightarrow> (Party \<Rightarrow> Party) \<Rightarrow> Party list \<Rightarrow> Party list" where
  "updateParty pid f ps =
     (case pid of None \<Rightarrow> ps | Some i \<Rightarrow> updateFirst (\<lambda>p. party_id p = i) f ps)"

definition handleSave :: "AppData \<Rightarrow> Editing option \<Rightarrow> string \<Rightarrow> Rejected + AppData" where
  "handleSave data editing now =
    (case editing of
       None \<Rightarrow> Inl Silent
     | Some e \<Rightarrow>
        if e_description e = [] \<or> e_amount e = 0 \<or> e_date e = [] then Inl Silent
        else
          (let t = trans_new e now;
               old = (if e_id e \<noteq> [] then find (\<lambda>x. tx_id x = e_id e) (transactions data)
                      else None);
               tempTransactions =
                 (case old of None \<Rightarrow> transactions data
                  | Some _ \<Rightarrow> filter (\<lambda>x. tx_id x \<noteq> e_id e) (transactions data));
               accounts1 =
                 (case old of None \<Rightarrow> accounts data
                  | Some old \<Rightarrow> updateFirst (\<lambda>a. acc_id a = account old) (revertAccount old)
                                  (accounts data));
               parties1 =
                 (case old of None \<Rightarrow> parties data
                  | Some old \<Rightarrow> updateParty (partyId old) (revertParty old) (parties data));
               accounts2 = updateFirst (\<lambda>a. acc_id a = account t) (applyAccount t) accounts1;
               parties2 = updateParty (partyId t) (applyParty t) parties1
           in Inr (data\<lparr> transactions := t # tempTransactions,
                          accounts := accounts2, parties := parties2 \<rparr>)))"

text \<open>\<open>confirmed\<close> is the answer to the \<open>confirm\<close> dialog.\<close>

definition deleteTransaction :: "AppData \<Rightarrow> string \<Rightarrow> bool \<Rightarrow> Rejected + AppData" where
  "deleteTransaction data tid confirmed =
    (if \<not> confirmed then Inl Silent
     else case find (\<lambda>t. tx_id t = tid) (transactions data) of
       None \<Rightarrow> Inl Silent
     | Some t \<Rightarrow>
        Inr (data\<lparr> transactions := filter (\<lambda>x. tx_id x \<noteq> tid) (transactions data),
                    accounts :=
                      map (\<lambda>a. if acc_id a = account t
                               then (let delta = (if tx_type t = INCOME \<or> tx_type t = SALE
                                                  then - amount t else amount t)
                                     in a\<lparr>balance := balance a + delta\<rparr>)
                               else a) (accounts data),
                    parties :=
                      map (\<lambda>p. if partyId t = Some (party_id p)
                               then (let delta = (if tx_type t = SALE then - amount t
                                                  else if tx_type t = PURCHASE then amount t
                                                  else if tx_type t = INCOME then amount t
                                                  else if tx_type t = EXPENSE then - amount t
                                                  else 0)
                                     in p\<lparr>currentBalance := currentBalance p + delta\<rparr>)
                               else p) (parties data) \<rparr>))"

subsection \<open>The handler in double precision\<close>

text \<open>
  A JavaScript \<open>number\<close> is an IEEE-754 binary64 value, and each \<open>+=\<close> and \<open>-=\<close> of
  \<open>handleSave\<close> stores the exact result rounded to the nearest such value.  The four balance
  updates and the handler are read again here, line by line as above, with that rounding as
  the parameter \<open>rnd\<close>; with the identity for \<open>rnd\<close> they are the definitions above
  (\<open>handleSave_rnd_exact\<close>).
\<close>

definition revertAccount_rnd :: "(number \<Rightarrow> number) \<Rightarrow> Transaction \<Rightarrow> Account \<Rightarrow> Account" where
  "revertAccount_rnd rnd old oldAcc =
     (if tx_type old = INCOME \<or> tx_type old = SALE
      then oldAcc\<lparr>balance := rnd (balance oldAcc - amount old)\<rparr>
      else oldAcc\<lparr>balance := rnd (balance oldAcc + amount old)\<rparr>)"

definition revertParty_rnd :: "(number \<Rightarrow> number) \<Rightarrow> Transaction \<Rightarrow> Party \<Rightarrow> Party" where
  "revertParty_rnd rnd old oldParty =
     (if tx_type old = SALE
      then oldParty\<lparr>currentBalance := rnd (currentBalance oldParty - amount old)\<rparr>
      else if tx_type old = PURCHASE
      then oldParty\<lparr>currentBalance := rnd (currentBalance oldParty + amount old)\<rparr>
      else if tx_type old = INCOME
      then oldParty\<lparr>currentBalance := rnd (currentBalance oldParty + amount old)\<rparr>
      else if tx_type old = EXPENSE
      then oldParty\<lparr>currentBalance := rnd (currentBalance oldParty - amount old)\<rparr>
      else oldParty)"

definition applyAccount_rnd :: "(number \<Rightarrow> number) \<Rightarrow> Transaction \<Rightarrow> Account \<Rightarrow> Account" where
  "applyAccount_rnd rnd t newAcc =
     (if tx_type t = INCOME \<or> tx_type t = SALE
      then newAcc\<lparr>balance := rnd (balance newAcc + amount t)\<rparr>
      else newAcc\<lparr>balance := rnd (balance newAcc - amount t)\<rparr>)"

definition applyParty_rnd :: "(number \<Rightarrow> number) \<Rightarrow> Transaction \<Rightarrow> Party \<Rightarrow> Party" where
  "applyParty_rnd rnd t newParty =
     (if tx_type t = SALE
      then newParty\<lparr>currentBalance := rnd (currentBalance newParty + amount t)\<rparr>
      else if tx_type t = PURCHASE
      then newParty\<lparr>currentBalance := rnd (currentBalance newParty - amount t)\<rparr>
      else if tx_type t = INCOME
      then newParty\<lparr>currentBalance := rnd (currentBalance newParty - amount t)\<rparr>
      else if tx_type t = EXPENSE
      then newParty\<lparr>currentBalance := rnd (currentBalance newParty + amount t)\<rparr>
      else newParty)"

definition handleSave_rnd ::
  "(number \<Rightarrow> number) \<Rightarrow> AppData \<Rightarrow> Editing option \<Rightarrow> string \<Rightarrow> Rejected + AppData" where
  "handleSave_rnd rnd data editing now =
    (case editing of
       None \<Rightarrow> Inl Silent
     | Some e \<Rightarrow>
        if e_description e = [] \<or> e_amount e = 0 \<or> e_date e = [] then Inl Silent
        else
          (let t = trans_new e now;
               old = (if e_id e \<noteq> [] then find (\<lambda>x. tx_id x = e_id e) (transactions data)
                      else None);
               tempTransactions =
                 (case old of None \<Rightarrow> transactions data
                  | Some _ \<Rightarrow> filter (\<lambda>x. tx_id x \<noteq> e_id e) (transactions data));
               accounts1 =
                 (case old of None \<Rightarrow> accounts data
                  | Some old \<Rightarrow> updateFirst (\<lambda>a. acc_id a = account old)
                                  (revertAccount_rnd rnd old) (accounts data));
               parties1 =
                 (case old of None \<Rightarrow> parties data
                  | Some old \<Rightarrow> updateParty (partyId old) (revertParty_rnd rnd old)
                                  (parties data));
               accounts2 = updateFirst (\<lambda>a. acc_id a = account t) (applyAccount_rnd rnd t)
                             accounts1;
               parties2 = updateParty (partyId t) (applyParty_rnd rnd t) parties1
           in Inr (data\<lparr> transactions := t # tempTransactions,
                          accounts := accounts2, parties := parties2 \<rparr>)))"

text \<open>
  Rounding to binary64 on the rationals: a value in the binade \<open>[2^e, 2^(e+1))\<close> is rounded
  to a multiple of \<open>2^(e-52)\<close> (53 significant bits), and below the smallest normal number
  to a multiple of \<open>2^(-1074)\<close>; a value half-way between two neighbours goes to the one
  with the even significand.  Overflow to \<open>Infinity\<close> and the sign of zero are not modelled.
  \<open>bitLength n\<close> is the number of binary digits of a positive integer.
\<close>

definition pow2 :: "int \<Rightarrow> rat" where
  "pow2 e = (if 0 \<le> e then 2 ^ nat e else 1 / 2 ^ nat (- e))"

definition roundHalfEven :: "rat \<Rightarrow> int" where
  "roundHalfEven x =
     (let f = \<lfloor>x\<rfloor>; r = x - of_int f
      in if r < 1 / 2 then f else if 1 / 2 < r then f + 1 else if even f then f else f + 1)"

function bitLength :: "int \<Rightarrow> int" where
  "bitLength n = (if 0 < n then 1 + bitLength (n div 2) else 0)"
  by pat_completeness auto
termination
  by (relation "measure nat") auto

declare bitLength.simps [simp del]

definition binade :: "rat \<Rightarrow> int" where
  "binade x =
     (case quotient_of \<bar>x\<bar> of (p, q) \<Rightarrow>
        (let k = bitLength p - bitLength q
         in if pow2 k \<le> \<bar>x\<bar> then k else k - 1))"

definition toDouble :: "rat \<Rightarrow> rat" where
  "toDouble x =
     (if x = 0 then 0
      else (let u = pow2 (max (binade x - 52) (- 1074))
            in of_int (roundHalfEven (x / u)) * u))"

definition isDouble :: "rat \<Rightarrow> bool" where
  "isDouble x = (toDouble x = x)"

section \<open>Voice assistant dispatcher (\<open>src/unnamed/part_006\<close>)\<close>

text \<open>
  \<open>handleFunctionCall\<close> works on a deep copy of the aggregate.  Of the tool calls, the two
  that touch the ledger are modelled, with the arguments the declarations list.

  A string is held as its UTF-8 bytes.  \<open>s.includes(t)\<close> holds when \<open>t\<close> occurs in \<open>s\<close> as
  a contiguous run (every string includes the empty one); for well-formed text a run of
  UTF-16 units and the run of its bytes occur together.  \<open>String.prototype.toLowerCase\<close>
  belongs to the JavaScript engine, not to the repository: it follows the Unicode case
  tables and their context rules, so it is no map over the characters.  The dispatcher
  takes it as the parameter \<open>toLowerCase\<close>.  On text of ASCII characters it is
  \<open>asciiLower\<close>, which turns \<open>A\<close> to \<open>Z\<close> into \<open>a\<close> to \<open>z\<close> and keeps the rest.
\<close>

definition lowerChar :: "char \<Rightarrow> char" where
  "lowerChar c =
     (case map_of (zip ''ABCDEFGHIJKLMNOPQRSTUVWXYZ'' ''abcdefghijklmnopqrstuvwxyz'') c of
        Some l \<Rightarrow> l | None \<Rightarrow> c)"

definition asciiLower :: "string \<Rightarrow> string" where
  "asciiLower s = map lowerChar s"

definition isAscii :: "string \<Rightarrow> bool" where
  "isAscii s = list_all (\<lambda>c. c < CHR 0x80) s"

fun includes_str :: "string \<Rightarrow> string \<Rightarrow> bool" where
  "includes_str [] t = (t = [])"
| "includes_str (c # s) t = (prefix t (c # s) \<or> includes_str s t)"

record RecordArgs =
  arg_type :: TransactionType
  arg_amount :: number
  arg_description :: string
  arg_category :: string
  arg_date :: string
  arg_accountId :: string

datatype FunctionCall =
    RecordTransactionCall RecordArgs
  | DeleteEntryCall string string

definition recordTransaction :: "AppData \<Rightarrow> RecordArgs \<Rightarrow> string \<Rightarrow> AppData" where
  "recordTransaction currentData args now =
     (let t = \<lparr> tx_id = now, tx_type = arg_type args, tx_date = arg_date args,
                 description = arg_description args, category = arg_category args,
                 amount = arg_amount args, account = arg_accountId args, partyId = None,
                 tx_notes = ''Recorded via Maya Voice Partner'' \<rparr>
      in currentData
           \<lparr> accounts :=
               map (\<lambda>a. if acc_id a = account t
                        then (let delta = (if tx_type t = INCOME \<or> tx_type t = SALE
                                           then amount t else - amount t)
                              in a\<lparr>balance := balance a + delta\<rparr>)
                        else a) (accounts currentData),
             transactions := t # transactions currentData \<rparr>)"

definition deleteEntry ::
  "(string \<Rightarrow> string) \<Rightarrow> AppData \<Rightarrow> string \<Rightarrow> string \<Rightarrow> Rejected + AppData" where
  "deleteEntry toLowerCase currentData ty searchPart =
     (let term0 = toLowerCase searchPart;
          purged =
            (if ty = ''transaction'' then
               currentData\<lparr> transactions :=
                 filter (\<lambda>t. \<not> includes_str (toLowerCase (description t)) term0) (transactions currentData) \<rparr>
             else if ty = ''task'' then
               currentData\<lparr> tasks :=
                 filter (\<lambda>t. \<not> includes_str (toLowerCase (content t)) term0) (tasks currentData) \<rparr>
             else if ty = ''journal'' then
               currentData\<lparr> journal :=
                 filter (\<lambda>j. \<not> includes_str (toLowerCase (title j)) term0) (journal currentData) \<rparr>
             else if ty = ''goal'' then
               currentData\<lparr> goals :=
                 filter (\<lambda>g. \<not> includes_str (toLowerCase (goal_name g)) term0) (goals currentData) \<rparr>
             else currentData);
          found =
            (if ty = ''transaction'' then length (transactions purged) < length (transactions currentData)
             else if ty = ''task'' then length (tasks purged) < length (tasks currentData)
             else if ty = ''journal'' then length (journal purged) < length (journal currentData)
             else if ty = ''goal'' then length (goals purged) < length (goals currentData)
             else False)
      in if found then Inr purged else Inl Silent)"

definition handleFunctionCall ::
  "(string \<Rightarrow> string) \<Rightarrow> AppData \<Rightarrow> FunctionCall \<Rightarrow> string \<Rightarrow> Rejected + AppData" where
  "handleFunctionCall toLowerCase data fc now =
     (case fc of
        RecordTransactionCall args \<Rightarrow> Inr (recordTransaction data args now)
      | DeleteEntryCall ty searchPart \<Rightarrow> deleteEntry toLowerCase data ty searchPart)"

section \<open>Signed deltas and the balance invariant\<close>

text \<open>
  The ledger page, the delete handler and the assistant all compute the account delta of a
  transaction by the same test: \<open>+amount\<close> for income and sale, \<open>-amount\<close> otherwise.  The
  party delta is the sign table of \<open>handleSave\<close>.
\<close>

definition signedDelta :: "Transaction \<Rightarrow> number" where
  "signedDelta t = (if tx_type t = INCOME \<or> tx_type t = SALE then amount t else - amount t)"

definition partySignedDelta :: "Transaction \<Rightarrow> number" where
  "partySignedDelta t =
     (if tx_type t = SALE then amount t
      else if tx_type t = PURCHASE then - amount t
      else if tx_type t = INCOME then - amount t
      else amount t)"

definition liveDeltas :: "string \<Rightarrow> Transaction list \<Rightarrow> number" where
  "liveDeltas aid ts = sum_list (map signedDelta (filter (\<lambda>t. account t = aid) ts))"

definition balanceInvariant :: "AppData \<Rightarrow> bool" where
  "balanceInvariant data =
     list_all (\<lambda>a. balance a = openingBalance a + liveDeltas (acc_id a) (transactions data))
              (accounts data)"

section \<open>Example states\<close>

text \<open>
  A small aggregate on which the theorems below are exercised: the cash account of
  \<open>INITIAL_DATA\<close>, one party, and one asset that has not been traded yet.
\<close>

definition exAccount :: Account where
  "exAccount = \<lparr> acc_id = ''cash-01'', acc_name = ''Main Cash'', balance = 0, openingBalance = 0 \<rparr>"

definition exParty :: Party where
  "exParty = \<lparr> party_id = ''p1'', party_name = ''Supplier'', currentBalance = 0 \<rparr>"

definition exAsset :: Investment where
  "exAsset = \<lparr> inv_id = ''a1'', inv_name = ''ACME'', assetType = ''Stock'', qty = 0,
               avgBuyPrice = 0, currPrice = 0, history = [], status = Active,
               totalRealizedPL = 0 \<rparr>"

definition exData :: AppData where
  "exData = \<lparr> accounts = [exAccount], parties = [exParty], transactions = [],
              investments = [exAsset], tasks = [], journal = [], goals = [] \<rparr>"

definition exTrade :: "TradeType \<Rightarrow> number \<Rightarrow> number \<Rightarrow> number \<Rightarrow> string \<Rightarrow> TradeData" where
  "exTrade ty q p c d =
     \<lparr> td_id = [], assetId = ''a1'', newName = [], newType = ''Stock'', td_type = ty,
       td_qty = q, td_price = p, td_charges = c, td_date = d, accountId = ''cash-01'' \<rparr>"

definition exEditing :: Editing where
  "exEditing = \<lparr> e_id = [], e_type = PURCHASE, e_date = ''2024-03-01'',
                 e_description = ''Stock purchase'', e_category = ''Inventory Purchase'',
                 e_amount = 250, e_account = ''cash-01'', e_partyId = Some ''p1'',
                 e_notes = [] \<rparr>"

definition exFmt :: "number \<Rightarrow> string" where
  "exFmt n = ''n''"

text \<open>The same aggregate after the purchase of \<open>exEditing\<close> has been recorded as \<open>t1\<close>.\<close>

definition exTx :: Transaction where
  "exTx = \<lparr> tx_id = ''t1'', tx_type = PURCHASE, tx_date = ''2024-03-01'',
            description = ''Stock purchase'', category = ''Inventory Purchase'', amount = 250,
            account = ''cash-01'', partyId = Some ''p1'', tx_notes = [] \<rparr>"

definition exLedger :: AppData where
  "exLedger = exData \<lparr> accounts := [exAccount\<lparr>balance := - 250\<rparr>],
                       parties := [exParty\<lparr>currentBalance := - 250\<rparr>],
                       transactions := [exTx] \<rparr>"


section \<open>Well-formed histories\<close>

text \<open>
  Conditions on a trade history, read in replay order, that the theorems below assume where
  they need them: every trade has a positive quantity; every trade has a positive quantity
  and price and non-negative charges; some trade is a sell; and no sell exceeds the
  quantity held when the replay reaches it (\<open>noOversell q hs\<close>, with \<open>q\<close> the quantity
  held before \<open>hs\<close>).  The replaying page checks none of them for the stored history.
\<close>

definition positiveQty :: "InvestmentTrade list \<Rightarrow> bool" where
  "positiveQty hs = list_all (\<lambda>h. 0 < trade_qty h) hs"


definition hasSell :: "InvestmentTrade list \<Rightarrow> bool" where
  "hasSell hs = list_ex (\<lambda>h. trade_type h = Sell) hs"

fun noOversell :: "number \<Rightarrow> InvestmentTrade list \<Rightarrow> bool" where
  "noOversell q [] = True"
| "noOversell q (h # hs) =
     (if trade_type h = Buy then noOversell (q + trade_qty h) hs
      else trade_qty h \<le> q \<and> noOversell (q - trade_qty h) hs)"

text \<open>A run of trade dialogs, each with its reading of the clock.\<close>

fun executeAll :: "(number \<Rightarrow> string) \<Rightarrow> AppData \<Rightarrow> (TradeData \<times> string) list \<Rightarrow> AppData" where
  "executeAll fmt data [] = data"
| "executeAll fmt data ((td, ts) # rest) =
     executeAll fmt (stateAfter data (executeTrade fmt data td ts ts)) rest"

text \<open>
  The example asset after the two trades of the cost-basis scenario; four trades of which
  the first sell takes more than is held; and the dialog that amends trade \<open>tr-1\<close>.
\<close>

definition exHeld :: Investment where
  "exHeld = exAsset \<lparr> qty := 6, avgBuyPrice := 101, totalRealizedPL := 191,
     history := [\<lparr> trade_id = ''tr-1'', trade_date = ''2024-01-05'', trade_type = Buy,
                    trade_qty = 10, price = 100, charges = 10 \<rparr>,
                 \<lparr> trade_id = ''tr-2'', trade_date = ''2024-02-09'', trade_type = Sell,
                    trade_qty = 4, price = 150, charges = 5 \<rparr>] \<rparr>"

definition exOversold :: "(TradeData \<times> string) list" where
  "exOversold = [(exTrade Buy 10 100 0 ''2024-01-01'', ''1''),
                 (exTrade Sell 20 50 0 ''2024-02-01'', ''2''),
                 (exTrade Buy 20 50 0 ''2024-03-01'', ''3''),
                 (exTrade Sell 20 50 0 ''2024-04-01'', ''4'')]"

definition exAmend :: "number \<Rightarrow> number \<Rightarrow> string \<Rightarrow> TradeData" where
  "exAmend p c d = (exTrade Buy 10 p c d)\<lparr>td_id := ''tr-1''\<rparr>"


section \<open>Runs of ledger operations\<close>

text \<open>
  The operations that keep the books on the ledger page and through the assistant's
  \<open>recordTransaction\<close> call, and a run of them from a given aggregate.  A new record takes
  its id from the clock; \<open>freshIds\<close> says that along the run no such id is already in use.
  \<open>ledgerConsistent\<close> adds to the balance invariant that transaction ids and account ids
  are not repeated: the handlers look records up by id.
\<close>

datatype LedgerOp =
    Save "Editing option" string
  | Delete string bool
  | Record RecordArgs string

fun applyOp :: "AppData \<Rightarrow> LedgerOp \<Rightarrow> AppData" where
  "applyOp data (Save editing now) = stateAfter data (handleSave data editing now)"
| "applyOp data (Delete tid confirmed) = stateAfter data (deleteTransaction data tid confirmed)"
| "applyOp data (Record args now) =
     stateAfter data (handleFunctionCall asciiLower data (RecordTransactionCall args) now)"

fun freshId :: "AppData \<Rightarrow> LedgerOp \<Rightarrow> bool" where
  "freshId data (Save editing now) =
     (case editing of None \<Rightarrow> True
      | Some e \<Rightarrow> e_id e \<noteq> [] \<or> now \<notin> set (map tx_id (transactions data)))"
| "freshId data (Delete tid confirmed) = True"
| "freshId data (Record args now) = (now \<notin> set (map tx_id (transactions data)))"

fun freshIds :: "AppData \<Rightarrow> LedgerOp list \<Rightarrow> bool" where
  "freshIds data [] = True"
| "freshIds data (op # ops) = (freshId data op \<and> freshIds (applyOp data op) ops)"

definition ledgerConsistent :: "AppData \<Rightarrow> bool" where
  "ledgerConsistent data =
     (balanceInvariant data \<and> distinct (map tx_id (transactions data))
      \<and> distinct (map acc_id (accounts data)))"

definition exArgs :: RecordArgs where
  "exArgs = \<lparr> arg_type = INCOME, arg_amount = 900, arg_description = ''Salary'',
              arg_category = ''Service'', arg_date = ''2024-03-05'',
              arg_accountId = ''cash-01'' \<rparr>"

definition exOps :: "LedgerOp list" where
  "exOps = [Save (Some exEditing) ''t1'', Record exArgs ''t2'',
            Save (Some (exEditing\<lparr>e_id := ''t1'', e_amount := 300\<rparr>)) ''t3'',
            Delete ''t2'' True]"

section \<open>An example outside ASCII\<close>

text \<open>
  The Greek word \<open>exPhoros\<close> (phi, omicron, rho, omicron, sigma) in capitals, its lower
  case, in which the sigma at the end of the word takes the final form (U+03C2), and the
  capital sigma alone, whose lower case is the plain form (U+03C3): the Final_Sigma rule
  of the Unicode case algorithm that \<open>String.prototype.toLowerCase\<close> follows.
  \<open>exToLowerCase\<close> has these two values of \<open>toLowerCase\<close> and is \<open>asciiLower\<close> elsewhere.
\<close>

definition exPhoros :: string where
  "exPhoros = [CHR 0xCE, CHR 0xA6, CHR 0xCE, CHR 0x9F, CHR 0xCE, CHR 0xA1, CHR 0xCE, CHR 0x9F,
               CHR 0xCE, CHR 0xA3]"

definition exPhorosLower :: string where
  "exPhorosLower = [CHR 0xCF, CHR 0x86, CHR 0xCE, CHR 0xBF, CHR 0xCF, CHR 0x81, CHR 0xCE, CHR 0xBF,
                    CHR 0xCF, CHR 0x82]"

definition exSigma :: string where
  "exSigma = [CHR 0xCE, CHR 0xA3]"

definition exSigmaLower :: string where
  "exSigmaLower = [CHR 0xCF, CHR 0x83]"

definition exToLowerCase :: "string \<Rightarrow> string" where
  "exToLowerCase s =
     (if s = exPhoros then exPhorosLower else if s = exSigma then exSigmaLower
      else asciiLower s)"

definition exGreekTx :: Transaction where
  "exGreekTx = exTx\<lparr>description := exPhoros\<rparr>"

definition exGreekLedger :: AppData where
  "exGreekLedger = exLedger\<lparr>transactions := [exGreekTx]\<rparr>"

section \<open>A ledger of tenths\<close>





section \<open>Array and record lemmas\<close>

lemma find_Some_sat: "find p xs = Some x \<Longrightarrow> p x"
  by (induction xs) (auto split: if_splits)

lemma find_Some_list_ex: "find p xs = Some x \<Longrightarrow> list_ex p xs"
  by (induction xs) (auto split: if_splits)

lemma find_updateFirst_const:
  "find p xs = Some x \<Longrightarrow> p y \<Longrightarrow> find p (updateFirst p (\<lambda>_. y) xs) = Some y"
  by (induction xs) (auto split: if_splits)

lemma find_updateFirst_same:
  "(\<And>x. p (f x) = p x) \<Longrightarrow> find p (updateFirst p f xs) = map_option f (find p xs)"
  by (induction xs) auto

lemma updateFirst_twice:
  "(\<And>x. p (f x) = p x) \<Longrightarrow>
     updateFirst p g (updateFirst p f xs) = updateFirst p (\<lambda>x. g (f x)) xs"
  by (induction xs) auto

lemma includes_str_map: "includes_str s t \<Longrightarrow> includes_str (map f s) (map f t)"
proof (induction s)
  case Nil
  then show ?case by simp
next
  case (Cons c s)
  from Cons.prems have "prefix t (c # s) \<or> includes_str s t" by simp
  then show ?case
  proof
    assume "prefix t (c # s)"
    then have "prefix (map f t) (map f (c # s))" by (rule map_mono_prefix)
    then show ?thesis by simp
  next
    assume "includes_str s t"
    then have "includes_str (map f s) (map f t)" by (rule Cons.IH)
    then show ?thesis by simp
  qed
qed

lemma includes_str_sublist: "includes_str s t = sublist t s"
  by (induction s) (auto simp: sublist_Cons_right)

section \<open>The replaying \<open>executeTrade\<close>\<close>

lemma inv_id_finalAsset: "inv_id (finalAsset a hs) = inv_id a"
  by (simp add: finalAsset_def split: prod.splits)

lemma executeTrade_Inr:
  assumes "targetAsset data td s = Some a" "0 < td_qty td" "0 < td_price td"
  shows "executeTrade fmt data td s t =
           Inr (data\<lparr> investments := updatedInvestments data (finalAsset a (pushedHistory td a t)),
                       accounts := updatedAccounts data td,
                       transactions := ledgerTrans fmt td a t
                          # filter (\<lambda>x. tx_id x \<noteq> tx_id (ledgerTrans fmt td a t)) (transactions data) \<rparr>)"
  using assms by (simp add: executeTrade_def Let_def)

lemma assetById_updated:
  assumes "assetById aid data = Some a"
  shows "assetById aid (data\<lparr> investments := updatedInvestments data (finalAsset a hs),
                              accounts := as, transactions := ts \<rparr>)
           = Some (finalAsset a hs)"
proof -
  have ida: "inv_id a = aid"
    using find_Some_sat[of "\<lambda>i. inv_id i = aid"] assms by (simp add: assetById_def)
  have ex: "list_ex (\<lambda>i. inv_id i = aid) (investments data)"
    using find_Some_list_ex[of "\<lambda>i. inv_id i = aid"] assms by (simp add: assetById_def)
  have "find (\<lambda>i. inv_id i = aid)
          (updateFirst (\<lambda>i. inv_id i = aid) (\<lambda>_. finalAsset a hs) (investments data))
          = Some (finalAsset a hs)"
    using assms ida
    by (intro find_updateFirst_const[where x = a]) (simp_all add: assetById_def inv_id_finalAsset)
  then show ?thesis
    using ex ida by (simp add: assetById_def updatedInvestments_def inv_id_finalAsset)
qed

lemma existing_trade:
  assumes a: "assetById aid data = Some a" and aid: "aid \<noteq> []" "assetId td = aid"
      and pos: "0 < td_qty td" "0 < td_price td"
  shows "\<exists>data'. executeTrade fmt data td s t = Inr data' \<and>
           assetById aid data' = Some (finalAsset a (pushedHistory td a t))"
proof -
  have "targetAsset data td s = Some a"
    using a aid by (simp add: targetAsset_def assetById_def)
  from executeTrade_Inr[OF this pos] assetById_updated[OF a] show ?thesis by simp
qed

text \<open>
  C1 (cost-basis scenario).  An asset of the aggregate has an empty history.  A buy of 10
  units at 100 with charges 10 is executed, then a sell of 4 units at 150 with charges 5,
  dated no earlier than the buy.  Both executions save; after the buy the asset has
  \<open>qty = 10\<close> and \<open>avgBuyPrice = 101\<close>, after the sell it has \<open>qty = 6\<close>,
  \<open>avgBuyPrice = 101\<close> and \<open>totalRealizedPL = (150 - 101) * 4 - 5 = 191\<close>.
\<close>

theorem C1_cost_basis_scenario:
  assumes a: "assetById aid data = Some a" and aid: "aid \<noteq> []" and empty: "history a = []"
      and buy: "td_id tdB = []" "assetId tdB = aid" "td_type tdB = Buy"
               "td_qty tdB = 10" "td_price tdB = 100" "td_charges tdB = 10"
      and sell: "td_id tdS = []" "assetId tdS = aid" "td_type tdS = Sell"
               "td_qty tdS = 4" "td_price tdS = 150" "td_charges tdS = 5"
      and order: "td_date tdB \<le> td_date tdS"
  shows "\<exists>data1 data2 a1 a2.
           executeTrade fmt data tdB s1 t1 = Inr data1 \<and> assetById aid data1 = Some a1 \<and>
           qty a1 = 10 \<and> avgBuyPrice a1 = 101 \<and>
           executeTrade fmt data1 tdS s2 t2 = Inr data2 \<and> assetById aid data2 = Some a2 \<and>
           qty a2 = 6 \<and> avgBuyPrice a2 = 101 \<and>
           totalRealizedPL a2 = (150 - 101) * 4 - 5 \<and> totalRealizedPL a2 = 191"
proof -
  let ?a1 = "finalAsset a (pushedHistory tdB a t1)"
  let ?a2 = "finalAsset ?a1 (pushedHistory tdS ?a1 t2)"
  obtain data1 where d1:
    "executeTrade fmt data tdB s1 t1 = Inr data1" "assetById aid data1 = Some ?a1"
    using existing_trade[OF a aid buy(2), where s = s1 and t = t1 and fmt = fmt] buy by auto
  obtain data2 where d2:
    "executeTrade fmt data1 tdS s2 t2 = Inr data2" "assetById aid data2 = Some ?a2"
    using existing_trade[OF d1(2) aid sell(2), where s = s2 and t = t2 and fmt = fmt] sell by auto
  have h1: "pushedHistory tdB a t1 = [tradeRecord tdB t1]"
    using empty buy by (simp add: pushedHistory_def)
  have r1: "recalc [tradeRecord tdB t1] = (10, 1010, 0)"
    using buy by (simp add: recalc_def sortHistory_def tradeRecord_def)
  have q1: "qty ?a1 = 10" "avgBuyPrice ?a1 = 101" "history ?a1 = [tradeRecord tdB t1]"
    unfolding h1 by (simp_all add: finalAsset_def r1 sortHistory_def)
  have h2: "pushedHistory tdS ?a1 t2 = [tradeRecord tdB t1, tradeRecord tdS t2]"
    using sell q1 by (simp add: pushedHistory_def)
  have s2: "sortHistory [tradeRecord tdB t1, tradeRecord tdS t2]
              = [tradeRecord tdB t1, tradeRecord tdS t2]"
    using order by (simp add: sortHistory_def tradeRecord_def)
  have r2: "recalc [tradeRecord tdB t1, tradeRecord tdS t2] = (6, 606, 191)"
    unfolding recalc_def s2 using buy sell by (simp add: tradeRecord_def)
  have q2: "qty ?a2 = 6" "avgBuyPrice ?a2 = 101" "totalRealizedPL ?a2 = 191"
    unfolding h2 by (simp_all add: finalAsset_def r2)
  show ?thesis using d1 d2 q1 q2 by simp
qed

theorem C1_cost_basis_scenario_witness:
  "assetById ''a1'' exData = Some exAsset \<and> history exAsset = [] \<and>
   (\<exists>data1 data2 a1 a2.
      executeTrade exFmt exData (exTrade Buy 10 100 10 ''2024-01-05'') ''1'' ''1'' = Inr data1 \<and>
      assetById ''a1'' data1 = Some a1 \<and> qty a1 = 10 \<and> avgBuyPrice a1 = 101 \<and>
      executeTrade exFmt data1 (exTrade Sell 4 150 5 ''2024-02-09'') ''2'' ''2'' = Inr data2 \<and>
      assetById ''a1'' data2 = Some a2 \<and> qty a2 = 6 \<and> avgBuyPrice a2 = 101 \<and>
      totalRealizedPL a2 = (150 - 101) * 4 - 5 \<and> totalRealizedPL a2 = 191)"
proof -
  have a: "assetById ''a1'' exData = Some exAsset"
    by (simp add: assetById_def exData_def exAsset_def)
  have e: "history exAsset = []" by (simp add: exAsset_def)
  have o: "td_date (exTrade Buy 10 100 10 ''2024-01-05'') \<le> td_date (exTrade Sell 4 150 5 ''2024-02-09'')"
    by (simp add: exTrade_def)
  from C1_cost_basis_scenario[OF a _ e _ _ _ _ _ _ _ _ _ _ _ _ o,
      where fmt = exFmt and ?s1.0 = "''1''" and ?t1.0 = "''1''" and ?s2.0 = "''2''" and ?t2.0 = "''2''"]
  show ?thesis using a e by (simp add: exTrade_def)
qed

section \<open>The ledger page\<close>

lemma applyParty_delta:
  "applyParty t p = p\<lparr>currentBalance := currentBalance p + partySignedDelta t\<rparr>"
  by (cases "tx_type t") (simp_all add: applyParty_def partySignedDelta_def)

lemma party_id_applyParty: "party_id (applyParty t p) = party_id p"
  by (simp add: applyParty_delta)

lemma party_id_revertParty: "party_id (revertParty old p) = party_id p"
  by (cases "tx_type old") (simp_all add: revertParty_def)

lemma acc_id_revertAccount: "acc_id (revertAccount old a) = acc_id a"
  by (simp add: revertAccount_def)

lemma handleSave_record:
  assumes "e_id e = []" "handleSave data (Some e) now = Inr data'"
  shows "data' = data\<lparr> transactions := trans_new e now # transactions data,
                       accounts := updateFirst (\<lambda>a. acc_id a = account (trans_new e now))
                                     (applyAccount (trans_new e now)) (accounts data),
                       parties := updateParty (partyId (trans_new e now))
                                    (applyParty (trans_new e now)) (parties data) \<rparr>"
  using assms by (simp add: handleSave_def Let_def split: if_splits)

text \<open>
  C6 (party sign table).  \<open>handleSave\<close> records a new transaction (the form has no id) and
  saves, and the transaction's \<open>partyId\<close> resolves to the party \<open>p\<close>.  Then in the saved
  aggregate that party is \<open>p\<close> with \<open>currentBalance\<close> changed by \<open>partySignedDelta\<close> of the
  transaction, which is \<open>+amount\<close> for a sale, \<open>-amount\<close> for a purchase, \<open>-amount\<close> for
  an income and \<open>+amount\<close> for an expense.
\<close>

theorem C6_party_signed_delta:
  assumes rec: "e_id e = []"
      and ok: "handleSave data (Some e) now = Inr data'"
      and res: "findParty (partyId (trans_new e now)) (parties data) = Some p"
  shows "findParty (partyId (trans_new e now)) (parties data')
           = Some (p\<lparr>currentBalance := currentBalance p + partySignedDelta (trans_new e now)\<rparr>)
       \<and> partySignedDelta (trans_new e now)
           = (case e_type e of SALE \<Rightarrow> e_amount e | PURCHASE \<Rightarrow> - e_amount e
              | INCOME \<Rightarrow> - e_amount e | EXPENSE \<Rightarrow> e_amount e)"
proof -
  let ?t = "trans_new e now"
  obtain i where pid: "partyId ?t = Some i"
    using res by (cases "partyId ?t") (simp_all add: findParty_def)
  have ps: "parties data' = updateFirst (\<lambda>q. party_id q = i) (applyParty ?t) (parties data)"
    using handleSave_record[OF rec ok] pid by (simp add: updateParty_def)
  have "find (\<lambda>q. party_id q = i) (parties data')
          = map_option (applyParty ?t) (find (\<lambda>q. party_id q = i) (parties data))"
    unfolding ps by (rule find_updateFirst_same) (simp add: party_id_applyParty)
  then have a: "findParty (partyId ?t) (parties data') = Some (applyParty ?t p)"
    using res pid by (simp add: findParty_def)
  have b: "partySignedDelta ?t
             = (case e_type e of SALE \<Rightarrow> e_amount e | PURCHASE \<Rightarrow> - e_amount e
                | INCOME \<Rightarrow> - e_amount e | EXPENSE \<Rightarrow> e_amount e)"
    by (cases "e_type e") (simp_all add: partySignedDelta_def trans_new_def)
  show ?thesis using a b by (simp add: applyParty_delta)
qed

theorem C6_party_signed_delta_witness:
  "handleSave exData (Some exEditing) ''1709251200000''
     = Inr (stateAfter exData (handleSave exData (Some exEditing) ''1709251200000'')) \<and>
   findParty (Some ''p1'') (parties exData) = Some exParty \<and>
   findParty (Some ''p1'')
     (parties (stateAfter exData (handleSave exData (Some exEditing) ''1709251200000'')))
     = Some (exParty\<lparr>currentBalance := - 250\<rparr>)"
proof -
  let ?d = "stateAfter exData (handleSave exData (Some exEditing) ''1709251200000'')"
  have r: "e_id exEditing = []" by (simp add: exEditing_def)
  have ok: "handleSave exData (Some exEditing) ''1709251200000'' = Inr ?d"
    by (simp add: handleSave_def stateAfter_def exEditing_def Let_def)
  have p: "findParty (partyId (trans_new exEditing ''1709251200000'')) (parties exData)
             = Some exParty"
    by (simp add: findParty_def trans_new_def exEditing_def exData_def exParty_def)
  from C6_party_signed_delta[OF r ok p] ok p show ?thesis
    by (simp add: trans_new_def exEditing_def exParty_def partySignedDelta_def)
qed

subsection \<open>Amending with identical content\<close>

lemma handleSave_rnd_exact: "handleSave_rnd (\<lambda>x. x) = handleSave"
proof -
  have a: "revertAccount_rnd (\<lambda>x. x) = revertAccount"
    by (intro ext) (simp add: revertAccount_rnd_def revertAccount_def)
  have b: "revertParty_rnd (\<lambda>x. x) = revertParty"
    by (intro ext) (simp add: revertParty_rnd_def revertParty_def)
  have c: "applyAccount_rnd (\<lambda>x. x) = applyAccount"
    by (intro ext) (simp add: applyAccount_rnd_def applyAccount_def)
  have d: "applyParty_rnd (\<lambda>x. x) = applyParty"
    by (intro ext) (simp add: applyParty_rnd_def applyParty_def)
  show ?thesis
    apply (intro ext)
    unfolding handleSave_rnd_def handleSave_def a b c d
    by (rule refl)
qed

lemma updateFirst_found:
  "(\<And>x. find p xs = Some x \<Longrightarrow> f x = x) \<Longrightarrow> updateFirst p f xs = xs"
  by (induction xs) auto

lemma acc_id_revertAccount_rnd: "acc_id (revertAccount_rnd rnd old a) = acc_id a"
  by (simp add: revertAccount_rnd_def)

lemma party_id_revertParty_rnd: "party_id (revertParty_rnd rnd old p) = party_id p"
  by (cases "tx_type old") (simp_all add: revertParty_rnd_def)

lemma apply_revert_account_rnd:
  assumes "tx_type t = tx_type old" "amount t = amount old"
      and "rnd (balance a) = balance a"
      and "rnd (balance a - signedDelta old) = balance a - signedDelta old"
  shows "applyAccount_rnd rnd t (revertAccount_rnd rnd old a) = a"
  using assms
  by (cases "tx_type old = INCOME \<or> tx_type old = SALE")
     (simp_all add: applyAccount_rnd_def revertAccount_rnd_def signedDelta_def)

lemma apply_revert_party_rnd:
  assumes "tx_type t = tx_type old" "amount t = amount old"
      and "rnd (currentBalance p) = currentBalance p"
      and "rnd (currentBalance p - partySignedDelta old) = currentBalance p - partySignedDelta old"
  shows "applyParty_rnd rnd t (revertParty_rnd rnd old p) = p"
  using assms
  by (cases "tx_type old")
     (simp_all add: applyParty_rnd_def revertParty_rnd_def partySignedDelta_def)

lemma amend_identical_rnd:
  assumes old: "find (\<lambda>x. tx_id x = e_id e) (transactions data) = Some old"
      and amend: "e_id e \<noteq> []"
      and same: "tx_type (trans_new e now) = tx_type old" "amount (trans_new e now) = amount old"
                "account (trans_new e now) = account old" "partyId (trans_new e now) = partyId old"
      and acc: "\<And>a. find (\<lambda>a. acc_id a = account old) (accounts data) = Some a \<Longrightarrow>
                  rnd (balance a) = balance a
                  \<and> rnd (balance a - signedDelta old) = balance a - signedDelta old"
      and par: "\<And>p. findParty (partyId old) (parties data) = Some p \<Longrightarrow>
                  rnd (currentBalance p) = currentBalance p
                  \<and> rnd (currentBalance p - partySignedDelta old)
                      = currentBalance p - partySignedDelta old"
  shows "accounts (stateAfter data (handleSave_rnd rnd data (Some e) now)) = accounts data
       \<and> parties (stateAfter data (handleSave_rnd rnd data (Some e) now)) = parties data"
proof (cases "e_description e = [] \<or> e_amount e = 0 \<or> e_date e = []")
  case True
  then show ?thesis by (auto simp: handleSave_rnd_def stateAfter_def)
next
  case False
  let ?t = "trans_new e now"
  have "updateFirst (\<lambda>a. acc_id a = account old)
          (\<lambda>a. applyAccount_rnd rnd ?t (revertAccount_rnd rnd old a)) (accounts data)
        = accounts data"
    by (rule updateFirst_found) (simp add: apply_revert_account_rnd same acc)
  then have a: "updateFirst (\<lambda>a. acc_id a = account ?t) (applyAccount_rnd rnd ?t)
               (updateFirst (\<lambda>a. acc_id a = account old) (revertAccount_rnd rnd old)
                  (accounts data))
             = accounts data"
    using same by (simp add: updateFirst_twice acc_id_revertAccount_rnd)
  have p: "updateParty (partyId ?t) (applyParty_rnd rnd ?t)
               (updateParty (partyId old) (revertParty_rnd rnd old) (parties data))
             = parties data"
  proof (cases "partyId old")
    case None
    then show ?thesis using same by (simp add: updateParty_def)
  next
    case (Some i)
    have "updateFirst (\<lambda>p. party_id p = i)
            (\<lambda>p. applyParty_rnd rnd ?t (revertParty_rnd rnd old p)) (parties data)
          = parties data"
      by (rule updateFirst_found)
         (simp add: apply_revert_party_rnd same par findParty_def Some)
    then show ?thesis
      using same Some by (simp add: updateParty_def updateFirst_twice party_id_revertParty_rnd)
  qed
  show ?thesis using False old amend a p
    by (simp add: handleSave_rnd_def stateAfter_def Let_def)
qed

subsection \<open>Whole numbers are doubles\<close>

lemma bitLength_bound: "n < 2 ^ m \<Longrightarrow> bitLength n \<le> int m"
proof (induction m arbitrary: n)
  case 0
  then show ?case by (simp add: bitLength.simps)
next
  case (Suc m)
  show ?case
  proof (cases "0 < n")
    case True
    from Suc.prems have "n div 2 < 2 ^ m" by simp
    then have "bitLength (n div 2) \<le> int m" by (rule Suc.IH)
    then show ?thesis using True by (subst bitLength.simps) simp
  next
    case False
    then show ?thesis by (subst bitLength.simps) simp
  qed
qed

lemma bitLength_1: "bitLength 1 = 1"
  by code_simp

lemma roundHalfEven_of_int: "roundHalfEven (of_int m) = m"
  by (simp add: roundHalfEven_def Let_def)

lemma binade_of_int: "\<bar>n\<bar> < 2 ^ 53 \<Longrightarrow> binade (of_int n) \<le> 52"
proof -
  assume b: "\<bar>n\<bar> < 2 ^ 53"
  have q: "quotient_of \<bar>of_int n :: rat\<bar> = (\<bar>n\<bar>, 1)"
    by (simp flip: of_int_abs)
  from b have "bitLength \<bar>n\<bar> \<le> int 53" by (rule bitLength_bound)
  then show ?thesis
    by (simp add: binade_def q bitLength_1 Let_def)
qed

lemma isDouble_of_int:
  assumes "\<bar>n\<bar> < 2 ^ 53"
  shows "isDouble (of_int n)"
proof (cases "n = 0")
  case True
  then show ?thesis by (simp add: isDouble_def toDouble_def)
next
  case False
  define j where "j = nat (- max (binade (of_int n) - 52) (- 1074))"
  have "max (binade (of_int n) - 52) (- 1074) \<le> 0"
    using binade_of_int[OF assms] by simp
  then have u: "pow2 (max (binade (of_int n) - 52) (- 1074)) = 1 / 2 ^ j"
    by (cases "max (binade (of_int n) - 52) (- 1074) = 0") (simp_all add: pow2_def j_def)
  have "(of_int n :: rat) / (1 / 2 ^ j) = of_int (n * 2 ^ j)" by simp
  then have "roundHalfEven (of_int n / (1 / 2 ^ j)) = n * 2 ^ j"
    by (simp only: roundHalfEven_of_int)
  then show ?thesis
    using False by (simp add: isDouble_def toDouble_def u Let_def)
qed

text \<open>
  In exact arithmetic the reversal always cancels: with the identity for \<open>rnd\<close> the two
  conditions on the balances hold of every number.
\<close>

lemma amend_identical_exact:
  assumes "find (\<lambda>x. tx_id x = e_id e) (transactions data) = Some old"
      and "e_id e \<noteq> []"
      and "tx_type (trans_new e now) = tx_type old" "amount (trans_new e now) = amount old"
          "account (trans_new e now) = account old" "partyId (trans_new e now) = partyId old"
  shows "accounts (stateAfter data (handleSave data (Some e) now)) = accounts data
       \<and> parties (stateAfter data (handleSave data (Some e) now)) = parties data"
  using amend_identical_rnd[where rnd = "\<lambda>x. x", OF assms] by (simp add: handleSave_rnd_exact)




section \<open>Mark price\<close>

text \<open>
  C9 (mark price).  \<open>handleUpdateMktPrice\<close> leaves accounts, parties and transactions as
  they are and keeps the number of assets; an asset with another id is unchanged, and an
  asset with the given id is the old asset with \<open>currPrice\<close> set to the new price and
  nothing else changed (so \<open>qty\<close>, \<open>avgBuyPrice\<close>, \<open>history\<close>, \<open>totalRealizedPL\<close> and
  \<open>status\<close> are the old ones).  The unrealized P/L shown for it is
  \<open>(currPrice - avgBuyPrice) * qty\<close>; it is computed from these fields and is no field
  of the asset.  No condition on the price is needed.
\<close>

theorem C9_mark_price_frame:
  "accounts (handleUpdateMktPrice data aid p) = accounts data \<and>
   parties (handleUpdateMktPrice data aid p) = parties data \<and>
   transactions (handleUpdateMktPrice data aid p) = transactions data \<and>
   length (investments (handleUpdateMktPrice data aid p)) = length (investments data) \<and>
   (\<forall>k < length (investments data).
      (inv_id (investments data ! k) \<noteq> aid \<longrightarrow>
         investments (handleUpdateMktPrice data aid p) ! k = investments data ! k) \<and>
      (inv_id (investments data ! k) = aid \<longrightarrow>
         investments (handleUpdateMktPrice data aid p) ! k
           = (investments data ! k)\<lparr>currPrice := p\<rparr> \<and>
         qty (investments (handleUpdateMktPrice data aid p) ! k) = qty (investments data ! k) \<and>
         avgBuyPrice (investments (handleUpdateMktPrice data aid p) ! k)
           = avgBuyPrice (investments data ! k) \<and>
         history (investments (handleUpdateMktPrice data aid p) ! k)
           = history (investments data ! k) \<and>
         totalRealizedPL (investments (handleUpdateMktPrice data aid p) ! k)
           = totalRealizedPL (investments data ! k) \<and>
         status (investments (handleUpdateMktPrice data aid p) ! k)
           = status (investments data ! k) \<and>
         currentUnrealizedPL (investments (handleUpdateMktPrice data aid p) ! k)
           = (p - avgBuyPrice (investments data ! k)) * qty (investments data ! k)))"
  by (simp add: handleUpdateMktPrice_def currentUnrealizedPL_def)

theorem C9_mark_price_frame_witness:
  "inv_id (investments exData ! 0) = ''a1'' \<and>
   investments (handleUpdateMktPrice exData ''a1'' 120) ! 0 = exAsset\<lparr>currPrice := 120\<rparr> \<and>
   accounts (handleUpdateMktPrice exData ''a1'' 120) = [exAccount] \<and>
   currentUnrealizedPL (investments (handleUpdateMktPrice exData ''a1'' 120) ! 0)
     = (120 - avgBuyPrice exAsset) * qty exAsset"
proof -
  have k: "(0::nat) < length (investments exData)" by (simp add: exData_def)
  have i: "inv_id (investments exData ! 0) = ''a1''" by (simp add: exData_def exAsset_def)
  have e: "investments exData ! 0 = exAsset" "accounts exData = [exAccount]"
    by (simp_all add: exData_def)
  from C9_mark_price_frame[of exData "''a1''" 120] k i
  have "investments (handleUpdateMktPrice exData ''a1'' 120) ! 0
          = (investments exData ! 0)\<lparr>currPrice := 120\<rparr>
        \<and> currentUnrealizedPL (investments (handleUpdateMktPrice exData ''a1'' 120) ! 0)
          = (120 - avgBuyPrice (investments exData ! 0)) * qty (investments exData ! 0)
        \<and> accounts (handleUpdateMktPrice exData ''a1'' 120) = accounts exData"
    by blast
  with i e show ?thesis by (simp add: currentUnrealizedPL_def)
qed

section \<open>The assistant's delete path\<close>

text \<open>
  C10 (assistant delete), as amended.  Whatever \<open>toLowerCase\<close> is: after \<open>deleteEntry\<close>
  with type \<open>transaction\<close> (whether it saved or found nothing) the transactions are the
  old ones whose lower-cased description does not include the lower-cased search term,
  and the accounts and the parties are the old ones, so no balance is reversed.  When
  \<open>toLowerCase\<close> is \<open>asciiLower\<close> on ASCII text and the search term is ASCII text, every
  transaction with an ASCII description that includes the search term as written is gone.
\<close>

theorem C10_assistant_delete_no_reversal:
  "transactions (stateAfter data (deleteEntry toLowerCase data ''transaction'' searchPart))
     = filter (\<lambda>t. \<not> includes_str (toLowerCase (description t)) (toLowerCase searchPart))
         (transactions data)
   \<and> accounts (stateAfter data (deleteEntry toLowerCase data ''transaction'' searchPart))
       = accounts data
   \<and> parties (stateAfter data (deleteEntry toLowerCase data ''transaction'' searchPart))
       = parties data
   \<and> ((\<forall>s. isAscii s \<longrightarrow> toLowerCase s = asciiLower s) \<and> isAscii searchPart \<longrightarrow>
        (\<forall>t \<in> set (transactions data).
           isAscii (description t) \<and> includes_str (description t) searchPart \<longrightarrow>
           t \<notin> set (transactions
                     (stateAfter data (deleteEntry toLowerCase data ''transaction'' searchPart)))))"
proof -
  let ?keep = "\<lambda>t. \<not> includes_str (toLowerCase (description t)) (toLowerCase searchPart)"
  let ?d = "stateAfter data (deleteEntry toLowerCase data ''transaction'' searchPart)"
  have len: "\<not> length (filter ?keep (transactions data)) < length (transactions data)
             \<Longrightarrow> filter ?keep (transactions data) = transactions data"
    by (metis length_filter_le le_neq_implies_less length_filter_less filter_True)
  have tr: "transactions ?d = filter ?keep (transactions data)"
    using len by (auto simp: deleteEntry_def stateAfter_def Let_def)
  have fr: "accounts ?d = accounts data \<and> parties ?d = parties data"
    by (simp add: deleteEntry_def stateAfter_def Let_def)
  have rm: "(\<forall>s. isAscii s \<longrightarrow> toLowerCase s = asciiLower s) \<and> isAscii searchPart \<longrightarrow>
        (\<forall>t \<in> set (transactions data).
           isAscii (description t) \<and> includes_str (description t) searchPart \<longrightarrow>
           t \<notin> set (transactions ?d))"
  proof (intro impI ballI, elim conjE)
    fix t :: Transaction
    assume ag: "\<forall>s. isAscii s \<longrightarrow> toLowerCase s = asciiLower s" and sp: "isAscii searchPart"
       and de: "isAscii (description t)" and inc: "includes_str (description t) searchPart"
    have "includes_str (asciiLower (description t)) (asciiLower searchPart)"
      using includes_str_map[OF inc, of lowerChar] by (simp add: asciiLower_def)
    then have "includes_str (toLowerCase (description t)) (toLowerCase searchPart)"
      using ag sp de by simp
    then show "t \<notin> set (transactions ?d)" unfolding tr by simp
  qed
  show ?thesis using tr fr rm by blast
qed

theorem C10_assistant_delete_no_reversal_witness:
  "exTx \<in> set (transactions exLedger) \<and> isAscii (description exTx) \<and> isAscii ''Stock'' \<and>
   includes_str (description exTx) ''Stock'' \<and>
   deleteEntry asciiLower exLedger ''transaction'' ''Stock''
     = Inr (exLedger\<lparr>transactions := []\<rparr>) \<and>
   exTx \<notin> set (transactions
               (stateAfter exLedger (deleteEntry asciiLower exLedger ''transaction'' ''Stock''))) \<and>
   accounts (stateAfter exLedger (deleteEntry asciiLower exLedger ''transaction'' ''Stock''))
     = [exAccount\<lparr>balance := - 250\<rparr>] \<and>
   parties (stateAfter exLedger (deleteEntry asciiLower exLedger ''transaction'' ''Stock''))
     = [exParty\<lparr>currentBalance := - 250\<rparr>]"
proof -
  have m: "exTx \<in> set (transactions exLedger)" by (simp add: exLedger_def)
  have a: "isAscii (description exTx)" "isAscii ''Stock''"
    by (simp_all add: exTx_def isAscii_def)
  have i: "includes_str (description exTx) ''Stock''" by (simp add: exTx_def)
  have d: "deleteEntry asciiLower exLedger ''transaction'' ''Stock''
             = Inr (exLedger\<lparr>transactions := []\<rparr>)"
    by (simp add: deleteEntry_def exLedger_def exTx_def asciiLower_def lowerChar_def Let_def)
  from C10_assistant_delete_no_reversal[of exLedger asciiLower "''Stock''"] m a i
  have "exTx \<notin> set (transactions
                    (stateAfter exLedger (deleteEntry asciiLower exLedger ''transaction'' ''Stock'')))
        \<and> accounts (stateAfter exLedger (deleteEntry asciiLower exLedger ''transaction'' ''Stock''))
            = accounts exLedger
        \<and> parties (stateAfter exLedger (deleteEntry asciiLower exLedger ''transaction'' ''Stock''))
            = parties exLedger"
    by blast
  with m a i d show ?thesis by (simp add: exLedger_def)
qed

text \<open>
  The claim as stated, that every transaction whose description contains the search term
  is removed, fails outside ASCII.  The description is the Greek word of \<open>exPhoros\<close>, in
  capitals, and the search term is its last letter, capital sigma.  The description
  contains the term.  Lower-casing turns the sigma at the end of the word into the
  final form and the sigma standing alone into the plain form, so the lower-cased
  description does not include the lower-cased term: nothing is found, nothing is saved,
  and the transaction stays.
\<close>

theorem C10_assistant_delete_no_reversal_counterexample:
  "exGreekTx \<in> set (transactions exGreekLedger) \<and>
   includes_str (description exGreekTx) exSigma \<and>
   deleteEntry exToLowerCase exGreekLedger ''transaction'' exSigma = Inl Silent \<and>
   exGreekTx \<in> set (transactions
                 (stateAfter exGreekLedger
                    (deleteEntry exToLowerCase exGreekLedger ''transaction'' exSigma)))"
  by (simp add: deleteEntry_def stateAfter_def exGreekLedger_def exGreekTx_def exLedger_def
      exTx_def exPhoros_def exPhorosLower_def exSigma_def exSigmaLower_def exToLowerCase_def
      Let_def)

section \<open>Retroactive edits\<close>

lemmas eval_defs = exData_def exAsset_def exAccount_def exParty_def exTrade_def exFmt_def
  executeTrade_def stateAfter_def targetAsset_def finalAsset_def pushedHistory_def
  recalc_def sortHistory_def tradeRecord_def updatedInvestments_def updatedAccounts_def
  ledgerTrans_def netImpact_def toUpperCase_type_def Let_def

subsection \<open>The minimum of a stable sort\<close>

lemma insort_key_min: "\<forall>y\<in>set ys. f x < f y \<Longrightarrow> insort_key f x ys = x # ys"
  by (cases ys) auto

lemma sort_key_min_last:
  "\<forall>y\<in>set ys. f x < f y \<Longrightarrow> sort_key f (ys @ [x]) = x # sort_key f ys"
  by (induction ys) auto

lemma sort_key_min_mid:
  "\<forall>y\<in>set (xs @ ys). f x < f y \<Longrightarrow> sort_key f (xs @ x # ys) = x # sort_key f (xs @ ys)"
proof (induction xs)
  case Nil
  then show ?case by (simp add: insort_key_min)
next
  case (Cons z xs)
  then show ?case by auto
qed

lemma filter_drop_mid:
  "\<forall>h\<in>set (xs @ ys). p h \<Longrightarrow> \<not> p b \<Longrightarrow> filter p (xs @ b # ys) = xs @ ys"
  by (induction xs) auto

lemma positiveQty_sort: "positiveQty (sortHistory hs) = positiveQty hs"
  by (simp add: positiveQty_def sortHistory_def list_all_iff)

lemma hasSell_sort: "hasSell (sortHistory hs) = hasSell hs"
  by (simp add: hasSell_def sortHistory_def list_ex_iff)

subsection \<open>How the realized P/L depends on the cost basis\<close>

text \<open>
  Two replays of the same trades from the same quantity, the second with a cost basis
  higher by \<open>d\<close> and a realized P/L lower by \<open>e\<close>.  One step of each:
\<close>

lemma sell_step:
  assumes "trade_type h \<noteq> Buy" "0 < q"
  shows "recalcStep (q, c + d, r - e) h =
           (q - trade_qty h, (c - c / q * trade_qty h) + d * (1 - trade_qty h / q),
            (r + ((price h - c / q) * trade_qty h - charges h)) - (e + d * trade_qty h / q))"
  using assms by (simp add: field_simps)

lemma buy_fold0:
  assumes "trade_type h = Buy"
  shows "foldl recalcStep (q, c, r) (h # hs)
           = foldl recalcStep (q + trade_qty h, c + (trade_qty h * price h + charges h), r) hs"
  using assms by simp

lemma buy_fold:
  assumes "trade_type h = Buy"
  shows "foldl recalcStep (q, c + d, r) (h # hs)
           = foldl recalcStep
               (q + trade_qty h, (c + (trade_qty h * price h + charges h)) + d, r) hs"
  using assms by (simp add: algebra_simps)

lemma sell_fold0:
  assumes "trade_type h \<noteq> Buy" "0 < q"
  shows "foldl recalcStep (q, c, r) (h # hs)
           = foldl recalcStep
               (q - trade_qty h, c - c / q * trade_qty h,
                r + ((price h - c / q) * trade_qty h - charges h)) hs"
  using assms by simp

lemma sell_fold:
  assumes "trade_type h \<noteq> Buy" "0 < q"
  shows "foldl recalcStep (q, c + d, r - e) (h # hs)
           = foldl recalcStep
               (q - trade_qty h, (c - c / q * trade_qty h) + d * (1 - trade_qty h / q),
                (r + ((price h - c / q) * trade_qty h - charges h))
                  - (e + d * trade_qty h / q)) hs"
  using sell_step[OF assms] by simp

text \<open>Without overselling the gap in realized P/L never shrinks.\<close>

lemma replay_mono:
  assumes "noOversell q hs" "positiveQty hs" "0 \<le> d"
  shows "e \<le> snd (snd (foldl recalcStep (q, c, r) hs))
             - snd (snd (foldl recalcStep (q, c + d, r - e) hs))"
  using assms
proof (induction hs arbitrary: q c r d e)
  case Nil
  then show ?case by simp
next
  case (Cons h hs)
  have p: "positiveQty hs" using Cons.prems by (simp add: positiveQty_def)
  show ?case
  proof (cases "trade_type h = Buy")
    case True
    have n: "noOversell (q + trade_qty h) hs" using Cons.prems True by simp
    note a1 = buy_fold0[OF True, of q c r hs]
    note a2 = buy_fold[OF True, of q c d "r - e" hs]
    show ?thesis
      unfolding a1 a2 by (rule Cons.IH[OF n p Cons.prems(3)])
  next
    case False
    have tq: "0 < trade_qty h" using Cons.prems by (simp add: positiveQty_def)
    have le: "trade_qty h \<le> q" and n: "noOversell (q - trade_qty h) hs"
      using Cons.prems False by simp_all
    have q: "0 < q" using tq le by simp
    have "0 \<le> 1 - trade_qty h / q" using le q by simp
    then have d': "0 \<le> d * (1 - trade_qty h / q)"
      using Cons.prems(3) by (simp add: less_imp_le)
    have e': "0 \<le> d * trade_qty h / q" using Cons.prems(3) tq q by simp
    have "e + d * trade_qty h / q
            \<le> snd (snd (foldl recalcStep (q, c, r) (h # hs)))
              - snd (snd (foldl recalcStep (q, c + d, r - e) (h # hs)))"
      unfolding sell_fold0[OF False q, of c r hs] sell_fold[OF False q, of c d r e hs]
      by (rule Cons.IH[OF n p d'])
    with e' show ?thesis by linarith
  qed
qed

text \<open>With a sell among the trades and \<open>d > 0\<close> it grows.\<close>

lemma replay_strict:
  assumes "noOversell q hs" "positiveQty hs" "0 < d" "hasSell hs"
  shows "e < snd (snd (foldl recalcStep (q, c, r) hs))
             - snd (snd (foldl recalcStep (q, c + d, r - e) hs))"
  using assms
proof (induction hs arbitrary: q c r e)
  case Nil
  then show ?case by (simp add: hasSell_def)
next
  case (Cons h hs)
  have p: "positiveQty hs" using Cons.prems by (simp add: positiveQty_def)
  show ?case
  proof (cases "trade_type h = Buy")
    case True
    have n: "noOversell (q + trade_qty h) hs" using Cons.prems True by simp
    have hs: "hasSell hs" using Cons.prems True by (simp add: hasSell_def)
    note a1 = buy_fold0[OF True, of q c r hs]
    note a2 = buy_fold[OF True, of q c d "r - e" hs]
    show ?thesis
      unfolding a1 a2 by (rule Cons.IH[OF n p Cons.prems(3) hs])
  next
    case False
    have tq: "0 < trade_qty h" using Cons.prems by (simp add: positiveQty_def)
    have le: "trade_qty h \<le> q" and n: "noOversell (q - trade_qty h) hs"
      using Cons.prems False by simp_all
    have q: "0 < q" using tq le by simp
    have "0 \<le> 1 - trade_qty h / q" using le q by simp
    then have d': "0 \<le> d * (1 - trade_qty h / q)"
      using Cons.prems(3) by (simp add: less_imp_le)
    have e': "0 < d * trade_qty h / q" using Cons.prems(3) tq q by simp
    have "e + d * trade_qty h / q
            \<le> snd (snd (foldl recalcStep (q, c, r) (h # hs)))
              - snd (snd (foldl recalcStep (q, c + d, r - e) (h # hs)))"
      unfolding sell_fold0[OF False q, of c r hs] sell_fold[OF False q, of c d r e hs]
      by (rule replay_mono[OF n p d'])
    with e' show ?thesis by linarith
  qed
qed

lemma pl_differs:
  assumes n: "noOversell q hs" and p: "positiveQty hs" and s: "hasSell hs" and d: "c \<noteq> c'"
  shows "snd (snd (foldl recalcStep (q, c, r) hs)) \<noteq> snd (snd (foldl recalcStep (q, c', r) hs))"
proof (cases "c < c'")
  case True
  from replay_strict[OF n p _ s, of "c' - c" 0 c r] True show ?thesis by simp
next
  case False
  with d have "c' < c" by simp
  with replay_strict[OF n p _ s, of "c - c'" 0 c' r] show ?thesis by simp
qed

text \<open>
  C8 (retroactive edit), as amended.  The history of an asset holds a buy \<open>b\<close> that is
  dated strictly before every other trade; the quantities are positive, some trade is a
  sell, and in date order no sell exceeds the quantity then held.  The trade dialog
  amends \<open>b\<close> (same id, date, quantity and charges) to a different positive price.  Then
  \<open>executeTrade\<close> saves, and the asset's new \<open>totalRealizedPL\<close>, which is the replay of the
  amended history, differs from the replay of the old history.
\<close>

theorem C8_retroactive_edit:
  assumes a: "assetById aid data = Some a" and aid: "aid \<noteq> []"
      and hist: "history a = xs @ b # ys"
      and first: "\<forall>h \<in> set (xs @ ys). trade_date b < trade_date h \<and> trade_id h \<noteq> trade_id b"
      and buy: "trade_type b = Buy"
      and valid: "positiveQty (history a)" "noOversell 0 (sortHistory (history a))"
                 "hasSell (history a)"
      and amend: "td_id td = trade_id b" "trade_id b \<noteq> []" "assetId td = aid" "td_type td = Buy"
                 "td_qty td = trade_qty b" "td_charges td = charges b" "td_date td = trade_date b"
                 "0 < td_price td" "td_price td \<noteq> price b"
  shows "\<exists>data' a'. executeTrade fmt data td s t = Inr data' \<and> assetById aid data' = Some a' \<and>
           totalRealizedPL a' = snd (snd (recalc (pushedHistory td a t))) \<and>
           totalRealizedPL a' \<noteq> snd (snd (recalc (history a)))"
proof -
  let ?b' = "tradeRecord td t"
  let ?rest = "sortHistory (xs @ ys)"
  have qb: "0 < trade_qty b" using valid(1) hist by (simp add: positiveQty_def)
  have b': "?b' = b\<lparr>price := td_price td\<rparr>"
    using amend buy by (cases b) (simp add: tradeRecord_def)
  have push: "pushedHistory td a t = (xs @ ys) @ [?b']"
    using amend first hist
    by (simp add: pushedHistory_def filter_drop_mid[where p = "\<lambda>h. trade_id h \<noteq> trade_id b"])
  have s0: "sortHistory (history a) = b # ?rest"
    unfolding hist sortHistory_def using first by (intro sort_key_min_mid) simp
  have s1: "sortHistory (pushedHistory td a t) = ?b' # ?rest"
    unfolding push sortHistory_def using first amend
    by (intro sort_key_min_last) (simp add: tradeRecord_def)
  have r0: "recalc (history a)
              = foldl recalcStep (trade_qty b, trade_qty b * price b + charges b, 0) ?rest"
    using buy by (simp add: recalc_def s0)
  have r1: "recalc (pushedHistory td a t)
              = foldl recalcStep (trade_qty b, trade_qty b * td_price td + charges b, 0) ?rest"
    using buy by (simp add: recalc_def s1 b')
  have n: "noOversell (trade_qty b) ?rest" using valid(2) buy by (simp add: s0)
  have p: "positiveQty ?rest"
    using valid(1) hist by (simp add: positiveQty_sort) (simp add: positiveQty_def)
  have hs: "hasSell ?rest"
    using valid(3) hist buy by (simp add: hasSell_sort) (simp add: hasSell_def)
  have c: "trade_qty b * td_price td + charges b \<noteq> trade_qty b * price b + charges b"
    using qb amend by simp
  have ne: "snd (snd (recalc (pushedHistory td a t))) \<noteq> snd (snd (recalc (history a)))"
    unfolding r0 r1 by (rule pl_differs[OF n p hs c])
  have pos: "0 < td_qty td" using qb amend by simp
  obtain data' where d: "executeTrade fmt data td s t = Inr data'"
      "assetById aid data' = Some (finalAsset a (pushedHistory td a t))"
    using existing_trade[OF a aid amend(3) pos amend(8), where fmt = fmt and s = s and t = t]
    by auto
  have pl: "totalRealizedPL (finalAsset a (pushedHistory td a t))
              = snd (snd (recalc (pushedHistory td a t)))"
    by (simp add: finalAsset_def split: prod.splits)
  show ?thesis using d pl ne by simp
qed

theorem C8_retroactive_edit_witness:
  "snd (snd (recalc (history exHeld))) = 191 \<and>
   (\<exists>data' a'. executeTrade exFmt (exData\<lparr>investments := [exHeld]\<rparr>)
                  (exAmend 120 10 ''2024-01-05'') ''7'' ''7'' = Inr data' \<and>
               assetById ''a1'' data' = Some a' \<and> totalRealizedPL a' \<noteq> 191)"
proof -
  let ?b = "\<lparr> trade_id = ''tr-1'', trade_date = ''2024-01-05'', trade_type = Buy,
              trade_qty = 10, price = 100, charges = 10 \<rparr>"
  let ?s = "\<lparr> trade_id = ''tr-2'', trade_date = ''2024-02-09'', trade_type = Sell,
              trade_qty = 4, price = 150, charges = 5 \<rparr>"
  let ?td = "exAmend 120 10 ''2024-01-05''"
  have r: "snd (snd (recalc (history exHeld))) = 191"
    by (simp add: exHeld_def exAsset_def recalc_def sortHistory_def)
  have a: "assetById ''a1'' (exData\<lparr>investments := [exHeld]\<rparr>) = Some exHeld"
    by (simp add: assetById_def exHeld_def exAsset_def)
  have h: "history exHeld = [] @ ?b # [?s]" by (simp add: exHeld_def exAsset_def)
  have f: "\<forall>h \<in> set ([] @ [?s]). trade_date ?b < trade_date h \<and> trade_id h \<noteq> trade_id ?b"
    by simp
  have v: "positiveQty (history exHeld)" "noOversell 0 (sortHistory (history exHeld))"
          "hasSell (history exHeld)"
    by (simp_all add: exHeld_def exAsset_def positiveQty_def hasSell_def sortHistory_def)
  have m: "td_id ?td = trade_id ?b" "trade_id ?b \<noteq> []" "assetId ?td = ''a1''" "td_type ?td = Buy"
          "td_qty ?td = trade_qty ?b" "td_charges ?td = charges ?b" "td_date ?td = trade_date ?b"
          "0 < td_price ?td" "td_price ?td \<noteq> price ?b"
    by (simp_all add: exAmend_def exTrade_def)
  have b: "trade_type ?b = Buy" by simp
  from C8_retroactive_edit[OF a _ h f b v m, where fmt = exFmt and s = "''7''" and t = "''7''"] r
  show ?thesis by auto
qed

text \<open>
  The claim without the condition on overselling fails.  The four trades of \<open>exOversold\<close>
  are executed on the example asset (buy 10 at 100, sell 20, buy 20, sell 20, in date
  order); the realized P/L is 0.  The first buy is amended to the price 120; the realized
  P/L is 0 again.
\<close>

theorem C8_retroactive_edit_counterexample:
  "map (map trade_type \<circ> history) (investments (executeAll exFmt exData exOversold))
     = [[Buy, Sell, Buy, Sell]] \<and>
   map (map price \<circ> history) (investments (executeAll exFmt exData exOversold))
     = [[100, 50, 50, 50]] \<and>
   map totalRealizedPL (investments (executeAll exFmt exData exOversold)) = [0] \<and>
   map (map price \<circ> history)
     (investments (executeAll exFmt exData (exOversold @ [(exAmend 120 0 ''2024-01-01'', ''5'')])))
     = [[120, 50, 50, 50]] \<and>
   map totalRealizedPL
     (investments (executeAll exFmt exData (exOversold @ [(exAmend 120 0 ''2024-01-01'', ''5'')])))
     = [0]"
  by (simp add: exOversold_def exAmend_def eval_defs)

section \<open>Derived state after a trade\<close>


subsection \<open>The replayed quantity is the sum of the signed quantities\<close>






subsection \<open>A positive holding has a positive cost basis\<close>


subsection \<open>What a saving \<open>executeTrade\<close> stores\<close>

lemma final_in_updated: "final \<in> set (updatedInvestments data final)"
proof -
  have "list_ex p xs \<Longrightarrow> y \<in> set (updateFirst p (\<lambda>_. y) xs)"
    for p and y :: Investment and xs
    by (induction xs) auto
  then show ?thesis by (simp add: updatedInvestments_def)
qed





section \<open>Selling more than is held\<close>

text \<open>
  C4 (oversell), as amended.  On the incremental page a sell of more than the traded asset
  holds is never saved: the handler returns early and the aggregate stays as it was; when
  the quantity and the price of the form are positive, the early return is the toast
  \<open>Insufficient holding quantity.\<close>; and a sell that is saved has \<open>qty \<le>\<close> the held
  quantity.  The replaying page has no such check: whenever the asset resolves and the
  quantity and price are positive it saves, and the stored quantity is the replayed
  quantity clamped at 0.
\<close>

theorem C4_oversell_policy:
  "(td_type td = Sell \<and> qty asset < td_qty td \<longrightarrow>
      (\<exists>rej. executeTrade_PortfolioPage fmt data (Some asset) td ts = Inl rej) \<and>
      stateAfter data (executeTrade_PortfolioPage fmt data (Some asset) td ts) = data) \<and>
   (td_type td = Sell \<and> qty asset < td_qty td \<and> 0 < td_qty td \<and> 0 < td_price td \<longrightarrow>
      executeTrade_PortfolioPage fmt data (Some asset) td ts
        = Inl (Toast ''Insufficient holding quantity.'')) \<and>
   (td_type td = Sell \<and> executeTrade_PortfolioPage fmt data (Some asset) td ts = Inr data'
      \<longrightarrow> td_qty td \<le> qty asset) \<and>
   (targetAsset data td s = Some a \<and> 0 < td_qty td \<and> 0 < td_price td \<longrightarrow>
      (\<exists>d'. executeTrade fmt data td s t = Inr d' \<and>
            finalAsset a (pushedHistory td a t) \<in> set (investments d') \<and>
            qty (finalAsset a (pushedHistory td a t))
              = max 0 (fst (recalc (pushedHistory td a t)))))"
proof -
  have 1: "td_type td = Sell \<and> qty asset < td_qty td \<longrightarrow>
      (\<exists>rej. executeTrade_PortfolioPage fmt data (Some asset) td ts = Inl rej) \<and>
      stateAfter data (executeTrade_PortfolioPage fmt data (Some asset) td ts) = data"
    by (simp add: executeTrade_PortfolioPage_def stateAfter_def)
  have 2: "td_type td = Sell \<and> qty asset < td_qty td \<and> 0 < td_qty td \<and> 0 < td_price td \<longrightarrow>
      executeTrade_PortfolioPage fmt data (Some asset) td ts
        = Inl (Toast ''Insufficient holding quantity.'')"
    by (simp add: executeTrade_PortfolioPage_def)
  have 3: "td_type td = Sell \<and> executeTrade_PortfolioPage fmt data (Some asset) td ts = Inr data'
      \<longrightarrow> td_qty td \<le> qty asset"
    by (auto simp: executeTrade_PortfolioPage_def Let_def split: if_splits)
  have 4: "targetAsset data td s = Some a \<and> 0 < td_qty td \<and> 0 < td_price td \<longrightarrow>
      (\<exists>d'. executeTrade fmt data td s t = Inr d' \<and>
            finalAsset a (pushedHistory td a t) \<in> set (investments d') \<and>
            qty (finalAsset a (pushedHistory td a t))
              = max 0 (fst (recalc (pushedHistory td a t))))"
  proof (intro impI, elim conjE)
    assume h: "targetAsset data td s = Some a" "0 < td_qty td" "0 < td_price td"
    have q: "qty (finalAsset a (pushedHistory td a t))
               = max 0 (fst (recalc (pushedHistory td a t)))"
      by (simp add: finalAsset_def split: prod.splits)
    show "\<exists>d'. executeTrade fmt data td s t = Inr d' \<and>
            finalAsset a (pushedHistory td a t) \<in> set (investments d') \<and>
            qty (finalAsset a (pushedHistory td a t))
              = max 0 (fst (recalc (pushedHistory td a t)))"
      using executeTrade_Inr[OF h, of fmt t] final_in_updated q by simp
  qed
  show ?thesis using 1 2 3 4 by blast
qed

theorem C4_oversell_policy_witness:
  "qty exAsset < 5 \<and>
   executeTrade_PortfolioPage exFmt exData (Some exAsset) (exTrade Sell 5 100 0 ''2024-01-01'') ''1''
     = Inl (Toast ''Insufficient holding quantity.'') \<and>
   stateAfter exData (executeTrade_PortfolioPage exFmt exData (Some exAsset)
                        (exTrade Sell 5 100 0 ''2024-01-01'') ''1'') = exData"
proof -
  let ?td = "exTrade Sell 5 100 0 ''2024-01-01''"
  have h: "td_type ?td = Sell" "qty exAsset < td_qty ?td" "0 < td_qty ?td" "0 < td_price ?td"
    by (simp_all add: exTrade_def exAsset_def)
  from C4_oversell_policy[of ?td exAsset exFmt exData "''1''"] h
  have "executeTrade_PortfolioPage exFmt exData (Some exAsset) ?td ''1''
          = Inl (Toast ''Insufficient holding quantity.'') \<and>
        stateAfter exData (executeTrade_PortfolioPage exFmt exData (Some exAsset) ?td ''1'')
          = exData"
    by blast
  with h show ?thesis by (simp add: exTrade_def stateAfter_def)
qed

text \<open>
  On the replaying page the claim as stated fails: the example asset holds nothing, a sell
  of 5 units at 100 is saved all the same; the trade enters the history, the account is
  credited with 500 and the linked transaction is written.
\<close>

theorem C4_oversell_policy_counterexample:
  "map qty (investments exData) = [0] \<and>
   map (map trade_qty \<circ> history)
     (investments (executeAll exFmt exData [(exTrade Sell 5 100 0 ''2024-01-01'', ''1'')]))
     = [[5]] \<and>
   map balance (accounts exData) = [0] \<and>
   map balance (accounts (executeAll exFmt exData [(exTrade Sell 5 100 0 ''2024-01-01'', ''1'')]))
     = [500] \<and>
   map tx_id (transactions (executeAll exFmt exData [(exTrade Sell 5 100 0 ''2024-01-01'', ''1'')]))
     = [''trade-1'']"
  by (simp add: eval_defs)

section \<open>The linked transaction of an amended trade\<close>

text \<open>
  C5 (amending a trade) does not hold of the replaying page.  A buy of 10 units at 100
  with charges 10 takes 1010 from the settlement account.  The same trade, amended from
  the audit dialog with identical content, takes 1010 again: the account update adds the
  new impact without taking back the old one.  The history still has the one trade, yet
  the ledger now has two linked transactions, since the amended one is filed under
  \<open>trade-tr-1\<close> and the original under \<open>trade-1\<close>.
\<close>

theorem C5_amend_double_counts:
  "map balance (accounts (executeAll exFmt exData [(exTrade Buy 10 100 10 ''2024-01-05'', ''1'')]))
     = [- 1010] \<and>
   map balance (accounts (executeAll exFmt exData
      [(exTrade Buy 10 100 10 ''2024-01-05'', ''1''), (exAmend 100 10 ''2024-01-05'', ''2'')]))
     = [- 2020] \<and>
   map (map trade_id \<circ> history) (investments (executeAll exFmt exData
      [(exTrade Buy 10 100 10 ''2024-01-05'', ''1''), (exAmend 100 10 ''2024-01-05'', ''2'')]))
     = [[''tr-1'']] \<and>
   map tx_id (transactions (executeAll exFmt exData
      [(exTrade Buy 10 100 10 ''2024-01-05'', ''1''), (exAmend 100 10 ''2024-01-05'', ''2'')]))
     = [''trade-tr-1'', ''trade-1'']"
  by (simp add: eval_defs exAmend_def)

section \<open>The balance invariant\<close>

text \<open>
  C2 (global invariant) does not hold of the assistant's delete path.  In the example
  ledger the cash account has opening balance 0 and balance -250, and the one live
  transaction is a purchase of 250 on it: the invariant holds.  \<open>deleteEntry\<close> for a
  transaction matching \<open>Stock\<close> saves the ledger without that transaction and with the
  balance still at -250: the invariant is broken.  (The description and the search term
  are ASCII text, on which \<open>toLowerCase\<close> is \<open>asciiLower\<close>.)
\<close>

theorem C2_assistant_delete_breaks_invariant:
  "balanceInvariant exLedger \<and>
   handleFunctionCall asciiLower exLedger (DeleteEntryCall ''transaction'' ''Stock'') ''9''
     = Inr (exLedger\<lparr>transactions := []\<rparr>) \<and>
   \<not> balanceInvariant (exLedger\<lparr>transactions := []\<rparr>)"
  by (simp add: balanceInvariant_def liveDeltas_def signedDelta_def handleFunctionCall_def
      deleteEntry_def exLedger_def exTx_def exData_def exAccount_def asciiLower_def lowerChar_def
      Let_def)

subsection \<open>The other paths keep the invariant\<close>

lemmas ledger_defs = handleSave_def deleteTransaction_def handleFunctionCall_def
  recordTransaction_def trans_new_def updateParty_def applyAccount_def applyParty_def
  revertAccount_def revertParty_def stateAfter_def Let_def

lemma liveDeltas_Cons:
  "liveDeltas aid (t # ts) = (if account t = aid then signedDelta t else 0) + liveDeltas aid ts"
  by (simp add: liveDeltas_def)

lemma filter_other_id:
  "tid \<notin> set (map tx_id ts) \<Longrightarrow> filter (\<lambda>x. tx_id x \<noteq> tid) ts = ts"
  by (induction ts) auto

lemma liveDeltas_remove:
  assumes "distinct (map tx_id ts)" "find (\<lambda>x. tx_id x = tid) ts = Some t"
  shows "liveDeltas aid (filter (\<lambda>x. tx_id x \<noteq> tid) ts)
           = liveDeltas aid ts - (if account t = aid then signedDelta t else 0)"
  using assms
proof (induction ts)
  case Nil
  then show ?case by simp
next
  case (Cons x ts)
  show ?case
  proof (cases "tx_id x = tid")
    case True
    then have "t = x" using Cons.prems(2) by simp
    moreover have "filter (\<lambda>x. tx_id x \<noteq> tid) ts = ts"
      using Cons.prems(1) True by (intro filter_other_id) auto
    ultimately show ?thesis using True by (simp add: liveDeltas_Cons)
  next
    case False
    then show ?thesis using Cons by (simp add: liveDeltas_Cons)
  qed
qed

lemma distinct_filter_ids: "distinct (map tx_id ts) \<Longrightarrow> distinct (map tx_id (filter p ts))"
  by (induction ts) auto

lemma find_None_id: "find (\<lambda>x. tx_id x = i) ts = None \<Longrightarrow> i \<notin> set (map tx_id ts)"
  by (induction ts) (auto split: if_splits)

lemma filter_removes_id: "i \<notin> set (map tx_id (filter (\<lambda>x. tx_id x \<noteq> i) ts))"
  by (induction ts) auto

text \<open>With distinct account ids the account that \<open>find\<close> returns is the only one.\<close>

lemma updateFirst_distinct:
  "distinct (map acc_id xs) \<Longrightarrow>
     updateFirst (\<lambda>a. acc_id a = k) f xs = map (\<lambda>a. if acc_id a = k then f a else a) xs"
proof (induction xs)
  case Nil
  then show ?case by simp
next
  case (Cons x xs)
  show ?case
  proof (cases "acc_id x = k")
    case True
    have "k \<notin> acc_id ` set xs" using Cons.prems True by simp
    then have "\<And>a. a \<in> set xs \<Longrightarrow> acc_id a \<noteq> k" by blast
    then have "map (\<lambda>a. if acc_id a = k then f a else a) xs = xs" by (intro map_idI) simp
    then show ?thesis using True by simp
  next
    case False
    then show ?thesis using Cons by simp
  qed
qed

lemma balance_applyAccount: "balance (applyAccount t a) = balance a + signedDelta t"
  by (simp add: applyAccount_def signedDelta_def)

lemma balance_revertAccount: "balance (revertAccount t a) = balance a - signedDelta t"
  by (simp add: revertAccount_def signedDelta_def)

lemma acc_id_applyAccount: "acc_id (applyAccount t a) = acc_id a"
  by (simp add: applyAccount_def)

lemma opening_applyAccount: "openingBalance (applyAccount t a) = openingBalance a"
  by (simp add: applyAccount_def)

lemma opening_revertAccount: "openingBalance (revertAccount t a) = openingBalance a"
  by (simp add: revertAccount_def)

text \<open>
  One operation, seen from the accounts: every account keeps its id and opening balance,
  and its balance moves by what the operation adds to its live deltas.
\<close>

lemma consistent_step:
  assumes c: "ledgerConsistent data"
      and acc: "accounts data' = map F (accounts data)"
      and F: "\<And>a. acc_id (F a) = acc_id a \<and> openingBalance (F a) = openingBalance a \<and>
                   balance (F a) = balance a + (liveDeltas (acc_id a) (transactions data')
                                                - liveDeltas (acc_id a) (transactions data))"
      and ids: "distinct (map tx_id (transactions data'))"
  shows "ledgerConsistent data'"
proof -
  have i: "map acc_id (accounts data') = map acc_id (accounts data)"
    unfolding acc using F by (simp add: comp_def)
  have b: "balanceInvariant data'"
    using c F unfolding balanceInvariant_def ledgerConsistent_def acc list_all_iff by auto
  show ?thesis using c i b ids by (simp add: ledgerConsistent_def)
qed

lemma record_consistent:
  assumes c: "ledgerConsistent data" and f: "now \<notin> set (map tx_id (transactions data))"
  shows "ledgerConsistent (recordTransaction data args now)"
proof -
  let ?t = "\<lparr> tx_id = now, tx_type = arg_type args, tx_date = arg_date args,
               description = arg_description args, category = arg_category args,
               amount = arg_amount args, account = arg_accountId args, partyId = None,
               tx_notes = ''Recorded via Maya Voice Partner'' \<rparr>"
  let ?F = "\<lambda>a. if acc_id a = account ?t then a\<lparr>balance := balance a + signedDelta ?t\<rparr> else a"
  have acc: "accounts (recordTransaction data args now) = map ?F (accounts data)"
    by (simp add: recordTransaction_def Let_def signedDelta_def)
  have ts: "transactions (recordTransaction data args now) = ?t # transactions data"
    by (simp add: recordTransaction_def Let_def)
  have ids: "distinct (map tx_id (transactions (recordTransaction data args now)))"
    using c f by (simp add: ts ledgerConsistent_def)
  show ?thesis
    by (rule consistent_step[OF c acc _ ids]) (simp add: ts liveDeltas_Cons)
qed

lemma delete_consistent:
  assumes c: "ledgerConsistent data"
  shows "ledgerConsistent (stateAfter data (deleteTransaction data tid confirmed))"
proof (cases "confirmed \<and> find (\<lambda>t. tx_id t = tid) (transactions data) \<noteq> None")
  case False
  then show ?thesis using c by (auto simp: deleteTransaction_def stateAfter_def)
next
  case True
  then obtain t where t: "find (\<lambda>t. tx_id t = tid) (transactions data) = Some t" by auto
  let ?d = "stateAfter data (deleteTransaction data tid confirmed)"
  let ?F = "\<lambda>a. if acc_id a = account t then a\<lparr>balance := balance a - signedDelta t\<rparr> else a"
  have d: "distinct (map tx_id (transactions data))" using c by (simp add: ledgerConsistent_def)
  have acc: "accounts ?d = map ?F (accounts data)"
    using True t by (simp add: deleteTransaction_def stateAfter_def Let_def signedDelta_def)
  have ts: "transactions ?d = filter (\<lambda>x. tx_id x \<noteq> tid) (transactions data)"
    using True t by (simp add: deleteTransaction_def stateAfter_def)
  have ids: "distinct (map tx_id (transactions ?d))"
    unfolding ts by (rule distinct_filter_ids[OF d])
  show ?thesis
    by (rule consistent_step[OF c acc _ ids]) (simp add: ts liveDeltas_remove[OF d t])
qed

lemma save_consistent:
  assumes c: "ledgerConsistent data" and f: "freshId data (Save editing now)"
  shows "ledgerConsistent (stateAfter data (handleSave data editing now))"
proof (cases "handleSave data editing now")
  case (Inl r)
  then show ?thesis using c by (simp add: stateAfter_def)
next
  case (Inr data')
  then obtain e where e: "editing = Some e"
    and v: "\<not> (e_description e = [] \<or> e_amount e = 0 \<or> e_date e = [])"
    by (cases editing) (auto simp: handleSave_def split: if_splits)
  let ?t = "trans_new e now"
  let ?old = "if e_id e \<noteq> [] then find (\<lambda>x. tx_id x = e_id e) (transactions data) else None"
  have da: "distinct (map acc_id (accounts data))"
    and dt: "distinct (map tx_id (transactions data))"
    using c by (simp_all add: ledgerConsistent_def)
  have st: "stateAfter data (handleSave data editing now) = data'"
    using Inr by (simp add: stateAfter_def)
  show ?thesis
  proof (cases ?old)
    case None
    let ?F = "\<lambda>a. if acc_id a = account ?t then applyAccount ?t a else a"
    have d': "data' = data\<lparr> transactions := ?t # transactions data,
                 accounts := updateFirst (\<lambda>a. acc_id a = account ?t) (applyAccount ?t)
                               (accounts data),
                 parties := updateParty (partyId ?t) (applyParty ?t) (parties data) \<rparr>"
      using Inr e v None by (simp add: handleSave_def Let_def split: if_splits)
    have acc: "accounts data' = map ?F (accounts data)"
      unfolding d' by (simp add: updateFirst_distinct[OF da])
    have ts: "transactions data' = ?t # transactions data" unfolding d' by simp
    have "tx_id ?t \<notin> set (map tx_id (transactions data))"
    proof (cases "e_id e = []")
      case True
      then show ?thesis using f e by (simp add: trans_new_def)
    next
      case False
      then have "find (\<lambda>x. tx_id x = e_id e) (transactions data) = None" using None by simp
      from find_None_id[OF this] False show ?thesis by (simp add: trans_new_def)
    qed
    then have ids: "distinct (map tx_id (transactions data'))" using dt by (simp add: ts)
    show ?thesis unfolding st
      by (rule consistent_step[OF c acc _ ids])
         (simp add: ts liveDeltas_Cons acc_id_applyAccount opening_applyAccount
            balance_applyAccount)
  next
    case (Some old)
    then have ne: "e_id e \<noteq> []"
      and fo: "find (\<lambda>x. tx_id x = e_id e) (transactions data) = Some old"
      by (auto split: if_splits)
    let ?G = "\<lambda>a. if acc_id a = account old then revertAccount old a else a"
    let ?F = "\<lambda>a. if acc_id a = account ?t then applyAccount ?t a else a"
    have d': "data' = data\<lparr> transactions :=
                   ?t # filter (\<lambda>x. tx_id x \<noteq> e_id e) (transactions data),
                 accounts := updateFirst (\<lambda>a. acc_id a = account ?t) (applyAccount ?t)
                               (updateFirst (\<lambda>a. acc_id a = account old) (revertAccount old)
                                  (accounts data)),
                 parties := updateParty (partyId ?t) (applyParty ?t)
                               (updateParty (partyId old) (revertParty old) (parties data)) \<rparr>"
      using Inr e v ne fo by (simp add: handleSave_def Let_def)
    have a1: "updateFirst (\<lambda>a. acc_id a = account old) (revertAccount old) (accounts data)
                = map ?G (accounts data)"
      by (rule updateFirst_distinct[OF da])
    have da1: "distinct (map acc_id (map ?G (accounts data)))"
      using da by (simp add: comp_def acc_id_revertAccount if_distrib[of acc_id] cong: if_cong)
    have acc: "accounts data' = map (\<lambda>a. ?F (?G a)) (accounts data)"
      unfolding d' by (simp add: a1 updateFirst_distinct[OF da1] comp_def)
    have ts: "transactions data' = ?t # filter (\<lambda>x. tx_id x \<noteq> e_id e) (transactions data)"
      unfolding d' by simp
    have "tx_id ?t = e_id e" using ne by (simp add: trans_new_def)
    then have ids: "distinct (map tx_id (transactions data'))"
      using distinct_filter_ids[OF dt] filter_removes_id[of "e_id e" "transactions data"]
      by (simp add: ts)
    show ?thesis unfolding st
      by (rule consistent_step[OF c acc _ ids])
         (simp add: ts liveDeltas_Cons liveDeltas_remove[OF dt fo] acc_id_applyAccount
            acc_id_revertAccount opening_applyAccount opening_revertAccount
            balance_applyAccount balance_revertAccount)
  qed
qed

lemma ledger_ops_consistent:
  "ledgerConsistent data \<Longrightarrow> freshIds data ops \<Longrightarrow> ledgerConsistent (foldl applyOp data ops)"
proof (induction ops arbitrary: data)
  case Nil
  then show ?case by simp
next
  case (Cons op ops)
  have "ledgerConsistent (applyOp data op)"
  proof (cases op)
    case (Save editing now)
    then show ?thesis using Cons.prems save_consistent by simp
  next
    case (Delete tid confirmed)
    then show ?thesis using Cons.prems delete_consistent by simp
  next
    case (Record args now)
    then show ?thesis using Cons.prems record_consistent
      by (simp add: handleFunctionCall_def stateAfter_def)
  qed
  then show ?case using Cons by simp
qed

text \<open>
  X1.  From an aggregate in which every account balance is its opening balance plus the
  signed deltas of its live transactions, and ids are not repeated, every run of
  \<open>handleSave\<close> (record or amend), \<open>deleteTransaction\<close> and the assistant's
  \<open>recordTransaction\<close> with fresh clock ids ends in such an aggregate.
\<close>

theorem X1_ledger_runs_keep_invariant:
  assumes "ledgerConsistent data" "freshIds data ops"
  shows "balanceInvariant (foldl applyOp data ops) \<and> ledgerConsistent (foldl applyOp data ops)"
  using ledger_ops_consistent[OF assms] by (simp add: ledgerConsistent_def)

theorem X1_ledger_runs_keep_invariant_witness:
  "ledgerConsistent exData \<and> freshIds exData exOps \<and>
   balanceInvariant (foldl applyOp exData exOps) \<and>
   map balance (accounts (foldl applyOp exData exOps)) = [- 300] \<and>
   map tx_id (transactions (foldl applyOp exData exOps)) = [''t1'']"
proof -
  have c: "ledgerConsistent exData"
    by (simp add: ledgerConsistent_def balanceInvariant_def liveDeltas_def exData_def
        exAccount_def)
  have f: "freshIds exData exOps"
    by (simp add: exOps_def exData_def exEditing_def exArgs_def exAccount_def exParty_def
        ledger_defs)
  have v: "map balance (accounts (foldl applyOp exData exOps)) = [- 300]"
          "map tx_id (transactions (foldl applyOp exData exOps)) = [''t1'']"
    by (simp_all add: exOps_def exData_def exEditing_def exArgs_def exAccount_def exParty_def
        ledger_defs)
  from X1_ledger_runs_keep_invariant[OF c f] c f v show ?thesis by simp
qed

section \<open>Properties of the replay\<close>

lemma recalc_sorted: "recalc (sortHistory hs) = recalc hs"
  by (simp add: recalc_def sortHistory_def sort_key_id_if_sorted)

text \<open>
  X2 (idempotence).  Recalculating an asset from the history that a recalculation stored
  gives the same asset: quantity, average price, realized P/L, status and history.
\<close>

theorem X2_replay_idempotent:
  "finalAsset (finalAsset a hs) (history (finalAsset a hs)) = finalAsset a hs"
proof -
  obtain Q C R where r: "recalc hs = (Q, C, R)" by (cases "recalc hs")
  have h: "history (finalAsset a hs) = sortHistory hs" by (simp add: finalAsset_def r)
  have s: "sortHistory (sortHistory hs) = sortHistory hs"
    by (simp add: sortHistory_def sort_key_id_if_sorted)
  show ?thesis unfolding h by (simp add: finalAsset_def recalc_sorted r s)
qed

text \<open>
  X3 (stable tie-break).  The replay order is ascending in the date, and trades of one
  date keep the order they have in the history.
\<close>

theorem X3_replay_order_stable:
  "filter (\<lambda>h. trade_date h = d) (sortHistory hs) = filter (\<lambda>h. trade_date h = d) hs
   \<and> sorted (map trade_date (sortHistory hs))"
  by (simp add: sortHistory_def sort_key_stable)

end
